theory Spec2Isabelle
  imports Complex_Main "HOL-Library.AList" "HOL-Library.Char_ord" "HOL-Library.List_Lexorder"
begin

section \<open>Python values shared by the services\<close>

text \<open>
  Exceptions are values: \<open>ValueError\<close> is what \<open>datetime.strptime\<close> and \<open>np.dot\<close> raise on
  a malformed argument, \<open>OSError\<close> is what a failed write to the local disk raises.
\<close>

datatype error = ValueError | OSError

subsection \<open>datetime, time and timedelta\<close>

text \<open>
  A \<open>datetime\<close> carries the fields of Python's naive \<open>datetime\<close>. Python keeps them in
  range by construction; the model states the range as \<open>datetime_valido\<close> where a
  theorem needs it. The years are those of four digits, which \<open>%Y\<close> writes the same way
  on every platform.
\<close>

record datetime =
  year :: int
  month :: int
  day :: int
  hour :: int
  minute :: int
  second :: int
  microsecond :: int

record time =
  t_hour :: int
  t_minute :: int
  t_second :: int

record timedelta =
  days :: int
  seconds :: int
  microseconds :: int

definition datetime_valido :: "datetime \<Rightarrow> bool" where
  "datetime_valido d \<longleftrightarrow>
     1000 \<le> year d \<and> year d \<le> 9999 \<and> 1 \<le> month d \<and> month d \<le> 12 \<and>
     1 \<le> day d \<and> day d \<le> 31 \<and> 0 \<le> hour d \<and> hour d < 24 \<and>
     0 \<le> minute d \<and> minute d < 60 \<and> 0 \<le> second d \<and> second d < 60 \<and>
     0 \<le> microsecond d \<and> microsecond d < 1000000"

text \<open>\<open>strftime\<close>: decimal digits, zero padded to the width of the directive.\<close>

definition digito :: "int \<Rightarrow> char" where
  "digito n = char_of (48 + n)"

definition dos_digitos :: "int \<Rightarrow> string" where
  "dos_digitos n = [digito (n div 10 mod 10), digito (n mod 10)]"

definition cuatro_digitos :: "int \<Rightarrow> string" where
  "cuatro_digitos n = dos_digitos (n div 100) @ dos_digitos (n mod 100)"

text \<open>\<open>d.strftime("%Y-%m-%d")\<close> and \<open>d.strftime("%H:%M:%S")\<close>.\<close>

definition strftime_fecha :: "datetime \<Rightarrow> string" where
  "strftime_fecha d =
     cuatro_digitos (year d) @ ''-'' @ dos_digitos (month d) @ ''-'' @ dos_digitos (day d)"

definition strftime_hora :: "datetime \<Rightarrow> string" where
  "strftime_hora d =
     dos_digitos (hour d) @ '':'' @ dos_digitos (minute d) @ '':'' @ dos_digitos (second d)"

text \<open>
  \<open>datetime.strptime(s, "%H:%M:%S").time()\<close>. The format compiles to the regular
  expression \<open>(2[0-3]|[0-1]\d|\d):([0-5]\d|\d):(6[0-1]|[0-5]\d|\d)\<close>: each field takes two
  digits when they form a value below the field's limit and one digit otherwise
  (\<open>campo\<close>); text left over after the match, a missing colon or a second of 60 or 61
  (which the \<open>datetime\<close> constructor rejects) raise \<open>ValueError\<close>.
  Digits are the ASCII digits, the ones \<open>strftime\<close> writes. Python's \<open>\d\<close> also matches
  the decimal digits of other scripts; the model reads a text with such characters as
  unparsable, and no statement below is about such a text.
\<close>

definition es_digito :: "char \<Rightarrow> bool" where
  "es_digito c \<longleftrightarrow> 48 \<le> (of_char c :: int) \<and> (of_char c :: int) \<le> 57"

definition valor_digito :: "char \<Rightarrow> int" where
  "valor_digito c = of_char c - 48"

fun campo :: "int \<Rightarrow> string \<Rightarrow> (int \<times> string) option" where
  "campo tope (a # b # resto) =
     (if es_digito a \<and> es_digito b \<and> 10 * valor_digito a + valor_digito b < tope
      then Some (10 * valor_digito a + valor_digito b, resto)
      else if es_digito a then Some (valor_digito a, b # resto)
      else None)"
| "campo tope [a] = (if es_digito a then Some (valor_digito a, []) else None)"
| "campo tope [] = None"

definition dos_puntos :: "string \<Rightarrow> string option" where
  "dos_puntos s = (case s of [] \<Rightarrow> None | c # resto \<Rightarrow> if c = CHR '':'' then Some resto else None)"

definition strptime_hora :: "string \<Rightarrow> error + time" where
  "strptime_hora s =
     (case campo 24 s of
        None \<Rightarrow> Inl ValueError
      | Some (h, s1) \<Rightarrow>
          (case dos_puntos s1 of
             None \<Rightarrow> Inl ValueError
           | Some s2 \<Rightarrow>
               (case campo 60 s2 of
                  None \<Rightarrow> Inl ValueError
                | Some (m, s3) \<Rightarrow>
                    (case dos_puntos s3 of
                       None \<Rightarrow> Inl ValueError
                     | Some s4 \<Rightarrow>
                         (case campo 62 s4 of
                            None \<Rightarrow> Inl ValueError
                          | Some (seg, s5) \<Rightarrow>
                              if s5 \<noteq> [] \<or> 60 \<le> seg then Inl ValueError
                              else Inr \<lparr>t_hour = h, t_minute = m, t_second = seg\<rparr>)))))"

text \<open>
  The proleptic Gregorian ordinal of a date (\<open>date.toordinal\<close>), as CPython computes it:
  days before the year, days before the month, day of the month.
\<close>

definition is_leap :: "int \<Rightarrow> bool" where
  "is_leap y \<longleftrightarrow> y mod 4 = 0 \<and> (y mod 100 \<noteq> 0 \<or> y mod 400 = 0)"

definition days_before_year :: "int \<Rightarrow> int" where
  "days_before_year y = (y - 1) * 365 + (y - 1) div 4 - (y - 1) div 100 + (y - 1) div 400"

definition days_before_month :: "int \<Rightarrow> int \<Rightarrow> int" where
  "days_before_month y m =
     [0, 0, 31, 59, 90, 120, 151, 181, 212, 243, 273, 304, 334] ! nat m
       + (if m > 2 \<and> is_leap y then 1 else 0)"

definition toordinal :: "datetime \<Rightarrow> int" where
  "toordinal d = days_before_year (year d) + days_before_month (year d) (month d) + day d"

text \<open>
  \<open>timedelta(days, seconds, microseconds)\<close> normalises its fields: microseconds into
  \<open>[0, 10^6)\<close>, seconds into \<open>[0, 86400)\<close>, the carry going to the next field (floor division,
  as Python's \<open>//\<close> and HOL's \<open>div\<close> on a positive divisor).
\<close>

definition mk_timedelta :: "int \<Rightarrow> int \<Rightarrow> int \<Rightarrow> timedelta" where
  "mk_timedelta d s us =
     (let s1 = s + us div 1000000
      in \<lparr>days = d + s1 div 86400, seconds = s1 mod 86400, microseconds = us mod 1000000\<rparr>)"

definition segundos_del_dia :: "datetime \<Rightarrow> int" where
  "segundos_del_dia d = second d + minute d * 60 + hour d * 3600"

text \<open>\<open>a - b\<close> on two naive datetimes.\<close>

definition restar :: "datetime \<Rightarrow> datetime \<Rightarrow> timedelta" where
  "restar a b =
     mk_timedelta (toordinal a - toordinal b) (segundos_del_dia a - segundos_del_dia b)
       (microsecond a - microsecond b)"

text \<open>\<open>datetime.combine(d, t)\<close>: the date of \<open>d\<close> (its time of day is ignored), the time \<open>t\<close>.\<close>

definition combine :: "datetime \<Rightarrow> time \<Rightarrow> datetime" where
  "combine d t =
     \<lparr>year = year d, month = month d, day = day d,
      hour = t_hour t, minute = t_minute t, second = t_second t, microsecond = 0\<rparr>"

section \<open>The attendance policy\<close>

text \<open>An attendance event as the ledger stores it: \<open>{"tipo": ..., "hora": ...}\<close>.\<close>

record registro =
  r_tipo :: string
  r_hora :: string

text \<open>
  The value \<open>diff_segundos\<close> of \<open>_evaluar_registro\<close>: the \<open>seconds\<close> field of the difference
  between \<open>datetime.now()\<close> and the prior event's time of day combined with
  \<open>datetime.today()\<close>. The two clock readings are the parameters \<open>hora_actual\<close> and \<open>hoy\<close>.
\<close>

definition diff_segundos :: "registro \<Rightarrow> datetime \<Rightarrow> datetime \<Rightarrow> error + int" where
  "diff_segundos ultimo hora_actual hoy =
     (case strptime_hora (r_hora ultimo) of
        Inl e \<Rightarrow> Inl e
      | Inr hora_ultimo \<Rightarrow> Inr (seconds (restar hora_actual (combine hoy hora_ultimo))))"

text \<open>\<open>AsistenciaService._evaluar_registro\<close>; \<open>ultimo\<close> is \<open>None\<close> when there is no prior event.\<close>

definition evaluar_registro ::
  "string \<Rightarrow> registro option \<Rightarrow> int \<Rightarrow> datetime \<Rightarrow> datetime \<Rightarrow> error + (bool \<times> string option)" where
  "evaluar_registro nombre ultimo tiempo_espera hora_actual hoy =
     (case ultimo of
        None \<Rightarrow> Inr (True, Some ''entrada'')
      | Some u \<Rightarrow>
          (case diff_segundos u hora_actual hoy of
             Inl e \<Rightarrow> Inl e
           | Inr d \<Rightarrow>
               if d < tiempo_espera then Inr (False, None)
               else Inr (True, Some (if r_tipo u = ''entrada'' then ''salida'' else ''entrada''))))"

section \<open>The stores\<close>

text \<open>
  A Python \<open>dict\<close> is an association list in insertion order: \<open>map_of\<close> looks a key up,
  \<open>AList.update\<close> assigns (in place for a key that is present, at the end for a new one),
  \<open>AList.delete\<close> is \<open>del\<close>. \<open>obtener d k v\<close> is \<open>d.get(k, v)\<close>.
\<close>

definition obtener :: "('k \<times> 'v) list \<Rightarrow> 'k \<Rightarrow> 'v \<Rightarrow> 'v" where
  "obtener d k v = (case map_of d k of None \<Rightarrow> v | Some x \<Rightarrow> x)"

type_synonym registros_dia = "(string \<times> registro list) list"

type_synonym asistencia = "(string \<times> registros_dia) list"

text \<open>A row of the hosted table \<open>asistencias\<close>.\<close>

record fila_asistencia =
  a_persona_nombre :: string
  a_tipo :: string
  a_fecha :: string
  a_hora :: string

text \<open>
  A registered person: the values of \<open>personas_registradas\<close>. A field is \<open>None\<close> when the
  key is missing or holds \<open>None\<close> (the code reads every field with \<open>.get\<close>).
  Embeddings are vectors of reals: the model idealises the floats of the recognition
  library, keeping their order and arithmetic exact.
\<close>

record persona_info =
  p_embedding :: "real list option"
  p_fecha_registro :: "string option"
  p_edad :: "int option"
  p_genero :: "string option"
  p_foto_url :: "string option"

text \<open>A row of the hosted table \<open>personas\<close>.\<close>

record fila_persona =
  fp_nombre :: string
  fp_embedding :: "real list"
  fp_edad :: "int option"
  fp_genero :: "string option"
  fp_fecha_registro :: "string option"
  fp_foto_url :: "string option"

text \<open>
  The state the three service objects share. \<open>enabled\<close> is \<open>SupabaseService.enabled\<close>
  (fixed at start-up; \<open>AsistenciaService.usa_supabase\<close> is the same value). The two
  tables are the hosted store, \<open>remoto_falla\<close> says that every call on the hosted client
  raises, \<open>disco_falla\<close> whether and where a write to a local file raises \<open>OSError\<close>.
  \<open>asistencia_cache\<close> and \<open>personas_registradas\<close> are the in-memory dictionaries,
  \<open>archivo_asistencia\<close> and \<open>archivo_personas\<close> the contents of the two local files.

  A write creates the directory, opens the file for writing, which empties it, and then
  dumps the dictionary. It can raise before the file is opened (\<open>FalloAlAbrir\<close>: the file
  is as before) or after (\<open>FalloAlEscribir\<close>: the file is left truncated, holding no
  complete document).
\<close>

datatype fallo_disco = SinFallo | FalloAlAbrir | FalloAlEscribir

datatype 'a archivo = Contenido 'a | Truncado

record mundo =
  enabled :: bool
  remoto_falla :: bool
  disco_falla :: fallo_disco
  tabla_asistencias :: "fila_asistencia list"
  tabla_personas :: "fila_persona list"
  asistencia_cache :: asistencia
  archivo_asistencia :: "asistencia archivo"
  personas_registradas :: "(string \<times> persona_info) list"
  archivo_personas :: "(string \<times> persona_info) list archivo"

section \<open>SupabaseService: attendance\<close>

text \<open>
  Every method returns its default when the service is not enabled, and catches every
  exception of the client call, returning the default as well.
  \<open>guardar_asistencia\<close> returns the payload on success and \<open>{}\<close> (here \<open>None\<close>) otherwise.
\<close>

definition guardar_asistencia ::
  "mundo \<Rightarrow> string \<Rightarrow> string \<Rightarrow> string \<Rightarrow> string \<Rightarrow> fila_asistencia option \<times> mundo" where
  "guardar_asistencia w nombre tipo fecha hora =
     (if \<not> enabled w then (None, w)
      else
        let payload = \<lparr>a_persona_nombre = nombre, a_tipo = tipo, a_fecha = fecha, a_hora = hora\<rparr>
        in if remoto_falla w then (None, w)
           else (Some payload, w\<lparr>tabla_asistencias := tabla_asistencias w @ [payload]\<rparr>))"

text \<open>\<open>_group_by_person\<close>: \<open>setdefault(persona, [])\<close> then \<open>append\<close>, row by row.\<close>

fun group_by_person_desde :: "registros_dia \<Rightarrow> fila_asistencia list \<Rightarrow> registros_dia" where
  "group_by_person_desde agrupado [] = agrupado"
| "group_by_person_desde agrupado (row # rows) =
     (let persona = a_persona_nombre row
      in group_by_person_desde
           (AList.update persona
              (obtener agrupado persona [] @ [\<lparr>r_tipo = a_tipo row, r_hora = a_hora row\<rparr>])
              agrupado)
           rows)"

definition group_by_person :: "fila_asistencia list \<Rightarrow> registros_dia" where
  "group_by_person rows = group_by_person_desde [] rows"

text \<open>
  The two queries. \<open>order("hora")\<close> is a stable sort on the column; with \<open>desc=True\<close> the
  sorted rows are read from the end.
\<close>

definition obtener_asistencia_por_fecha :: "mundo \<Rightarrow> string \<Rightarrow> registros_dia" where
  "obtener_asistencia_por_fecha w fecha =
     (if \<not> enabled w then []
      else if remoto_falla w then []
      else group_by_person
             (sort_key a_hora (filter (\<lambda>row. a_fecha row = fecha) (tabla_asistencias w))))"

definition obtener_ultimo_registro :: "mundo \<Rightarrow> string \<Rightarrow> string \<Rightarrow> registro option" where
  "obtener_ultimo_registro w nombre fecha =
     (if \<not> enabled w then None
      else if remoto_falla w then None
      else
        (case rev (sort_key a_hora
                (filter (\<lambda>row. a_persona_nombre row = nombre \<and> a_fecha row = fecha)
                   (tabla_asistencias w))) of
           [] \<Rightarrow> None
         | row # _ \<Rightarrow> Some \<lparr>r_tipo = a_tipo row, r_hora = a_hora row\<rparr>))"

section \<open>AsistenciaService\<close>

text \<open>
  Every clock reading of one call is the parameter \<open>ahora\<close>: the model takes a call to
  happen at one instant. A result is a pair: the value returned or the exception
  raised, and the state the call leaves.
\<close>

record resultado_asistencia =
  ra_exito :: bool
  ra_nombre :: string
  ra_tipo :: string
  ra_hora :: string
  ra_fecha :: string

text \<open>
  \<open>_guardar_asistencia_local\<close>: \<open>os.makedirs\<close>, \<open>open(..., "w")\<close>, \<open>json.dump\<close>. The file
  receives the cache, or the write raises, leaving the file untouched when it raises
  before the file is opened and truncated when it raises after.
\<close>

definition guardar_asistencia_local :: "mundo \<Rightarrow> (error + unit) \<times> mundo" where
  "guardar_asistencia_local w =
     (case disco_falla w of
        SinFallo \<Rightarrow> (Inr (), w\<lparr>archivo_asistencia := Contenido (asistencia_cache w)\<rparr>)
      | FalloAlAbrir \<Rightarrow> (Inl OSError, w)
      | FalloAlEscribir \<Rightarrow> (Inl OSError, w\<lparr>archivo_asistencia := Truncado\<rparr>))"

text \<open>\<open>_registrar_local\<close>: the cache is changed first, then saved.\<close>

definition registrar_local ::
  "mundo \<Rightarrow> string \<Rightarrow> string \<Rightarrow> string \<Rightarrow> string \<Rightarrow> (error + unit) \<times> mundo" where
  "registrar_local w nombre tipo fecha hora =
     (let dia = obtener (asistencia_cache w) fecha [];
          eventos = obtener dia nombre [];
          dia' = AList.update nombre (eventos @ [\<lparr>r_tipo = tipo, r_hora = hora\<rparr>]) dia
      in guardar_asistencia_local
           (w\<lparr>asistencia_cache := AList.update fecha dia' (asistencia_cache w)\<rparr>))"

definition registrar_asistencia ::
  "mundo \<Rightarrow> string \<Rightarrow> string \<Rightarrow> datetime \<Rightarrow> (error + resultado_asistencia) \<times> mundo" where
  "registrar_asistencia w nombre tipo ahora =
     (let fecha_hoy = strftime_fecha ahora;
          hora_actual = strftime_hora ahora;
          resultado = \<lparr>ra_exito = True, ra_nombre = nombre, ra_tipo = tipo,
                       ra_hora = hora_actual, ra_fecha = fecha_hoy\<rparr>
      in if enabled w
         then (Inr resultado, snd (guardar_asistencia w nombre tipo fecha_hoy hora_actual))
         else
           (case registrar_local w nombre tipo fecha_hoy hora_actual of
              (Inl e, w') \<Rightarrow> (Inl e, w')
            | (Inr _, w') \<Rightarrow> (Inr resultado, w')))"

definition obtener_asistencia_fecha :: "mundo \<Rightarrow> string \<Rightarrow> registros_dia" where
  "obtener_asistencia_fecha w fecha =
     (if enabled w then obtener_asistencia_por_fecha w fecha
      else obtener (asistencia_cache w) fecha [])"

definition obtener_asistencia_hoy :: "mundo \<Rightarrow> datetime \<Rightarrow> registros_dia" where
  "obtener_asistencia_hoy w ahora =
     (let fecha_hoy = strftime_fecha ahora
      in if enabled w then obtener_asistencia_por_fecha w fecha_hoy
         else obtener (asistencia_cache w) fecha_hoy [])"

text \<open>\<open>fecha or datetime.now().strftime(...)\<close>: \<open>None\<close> and the empty string give today.\<close>

definition obtener_asistencia_persona ::
  "mundo \<Rightarrow> string \<Rightarrow> string option \<Rightarrow> datetime \<Rightarrow> registro list" where
  "obtener_asistencia_persona w nombre fecha ahora =
     (let fecha' = (case fecha of None \<Rightarrow> strftime_fecha ahora
                    | Some f \<Rightarrow> if f = [] then strftime_fecha ahora else f)
      in obtener (obtener_asistencia_fecha w fecha') nombre [])"

definition verificar_puede_registrar ::
  "mundo \<Rightarrow> string \<Rightarrow> int \<Rightarrow> datetime \<Rightarrow> error + (bool \<times> string option)" where
  "verificar_puede_registrar w nombre tiempo_espera ahora =
     (let fecha_hoy = strftime_fecha ahora
      in if enabled w
         then evaluar_registro nombre (obtener_ultimo_registro w nombre fecha_hoy)
                tiempo_espera ahora ahora
         else
           let registros = obtener_asistencia_hoy w ahora;
               historial = obtener registros nombre [];
               ultimo = (if historial \<noteq> [] then Some (last historial) else None)
           in evaluar_registro nombre ultimo tiempo_espera ahora ahora)"

text \<open>\<open>_calcular_estadisticas\<close>: one pass over the values of the day's dictionary.\<close>

record estadisticas =
  total_personas :: nat
  con_entrada :: nat
  con_salida :: nat
  presentes :: nat

fun contar_estadisticas :: "registro list list \<Rightarrow> nat \<Rightarrow> nat \<Rightarrow> nat \<Rightarrow> nat \<times> nat \<times> nat" where
  "contar_estadisticas [] ce cs pr = (ce, cs, pr)"
| "contar_estadisticas (eventos # resto) ce cs pr =
     (let tiene_entrada = list_ex (\<lambda>r. r_tipo r = ''entrada'') eventos;
          tiene_salida = list_ex (\<lambda>r. r_tipo r = ''salida'') eventos
      in contar_estadisticas resto
           (if tiene_entrada then ce + 1 else ce)
           (if tiene_salida then cs + 1 else cs)
           (if tiene_entrada \<and> \<not> tiene_salida then pr + 1 else pr))"

definition calcular_estadisticas :: "registros_dia \<Rightarrow> estadisticas" where
  "calcular_estadisticas registros =
     (case contar_estadisticas (map snd registros) 0 0 0 of
        (ce, cs, pr) \<Rightarrow>
          \<lparr>total_personas = length registros, con_entrada = ce, con_salida = cs, presentes = pr\<rparr>)"

definition obtener_estadisticas_hoy :: "mundo \<Rightarrow> datetime \<Rightarrow> estadisticas \<times> string" where
  "obtener_estadisticas_hoy w ahora =
     (calcular_estadisticas (obtener_asistencia_hoy w ahora), strftime_fecha ahora)"

section \<open>The API layer: recording attendance\<close>

text \<open>
  The dictionaries that cross the API are association lists from keys to JSON-like
  values.
\<close>

datatype valor = VNone | VBool bool | VInt int | VReal real | VStr string
  | VLista "int list" | VVector "real list"

type_synonym dict = "(string \<times> valor) list"

text \<open>
  The loop of the endpoint \<open>/api/asistencia/registrar\<close> over the recognised faces: a face
  with a name other than \<open>Desconocido\<close> is checked with the default interval of 10
  seconds and, when allowed, recorded. An exception ends the request (the handler answers
  with status 500) and leaves the state as it was when raised. \<open>_evaluar_registro\<close>
  returns a type whenever it allows, so an allowed attempt always has one.
\<close>

fun api_registrar_bucle ::
  "mundo \<Rightarrow> dict list \<Rightarrow> datetime \<Rightarrow> resultado_asistencia list
     \<Rightarrow> (error + resultado_asistencia list) \<times> mundo" where
  "api_registrar_bucle w [] ahora registros = (Inr registros, w)"
| "api_registrar_bucle w (rostro # rostros) ahora registros =
     (case map_of rostro ''nombre'' of
        Some (VStr nombre) \<Rightarrow>
          if nombre \<noteq> [] \<and> nombre \<noteq> ''Desconocido'' then
            (case verificar_puede_registrar w nombre 10 ahora of
               Inl e \<Rightarrow> (Inl e, w)
             | Inr (puede, tipo) \<Rightarrow>
                 (case (puede, tipo) of
                    (True, Some t) \<Rightarrow>
                      (case registrar_asistencia w nombre t ahora of
                         (Inl e, w') \<Rightarrow> (Inl e, w')
                       | (Inr resultado, w') \<Rightarrow>
                           api_registrar_bucle w' rostros ahora (registros @ [resultado]))
                  | _ \<Rightarrow> api_registrar_bucle w rostros ahora registros))
          else api_registrar_bucle w rostros ahora registros
      | _ \<Rightarrow> api_registrar_bucle w rostros ahora registros)"

definition api_registrar_asistencia ::
  "mundo \<Rightarrow> dict list \<Rightarrow> datetime \<Rightarrow> (error + resultado_asistencia list) \<times> mundo" where
  "api_registrar_asistencia w rostros ahora = api_registrar_bucle w rostros ahora []"

text \<open>
  A run of requests, each showing the same face, at the given instants: the state after
  the last one.
\<close>

fun intentos :: "mundo \<Rightarrow> dict \<Rightarrow> datetime list \<Rightarrow> mundo" where
  "intentos w rostro [] = w"
| "intentos w rostro (t # ts) = intentos (snd (api_registrar_asistencia w [rostro] t)) rostro ts"

text \<open>Instants of one day, each at least \<open>n\<close> whole seconds after the one before.\<close>

fun separados :: "int \<Rightarrow> datetime list \<Rightarrow> bool" where
  "separados n (t1 # t2 # ts) \<longleftrightarrow>
     segundos_del_dia t1 + n \<le> segundos_del_dia t2 \<and> separados n (t2 # ts)"
| "separados n ts \<longleftrightarrow> True"

text \<open>The event types \<open>entrada, salida, entrada, ...\<close>, \<open>n\<close> of them.\<close>

definition alternancia :: "nat \<Rightarrow> string list" where
  "alternancia n = map (\<lambda>i. if even i then ''entrada'' else ''salida'') [0..<n]"

section \<open>FaceRecognitionService and the identity store\<close>

text \<open>
  A face as the recognition library returns it. \<open>age\<close>, \<open>sex\<close> and \<open>det_score\<close> are
  attributes the code probes with \<open>hasattr\<close>: \<open>None\<close> is an absent attribute.
\<close>

record face =
  f_bbox :: "int list"
  f_age :: "int option"
  f_sex :: "string option"
  f_det_score :: "real option"
  f_normed_embedding :: "real list"

text \<open>\<open>np.dot\<close> of two vectors: shapes that do not agree raise \<open>ValueError\<close>.\<close>

definition np_dot :: "real list \<Rightarrow> real list \<Rightarrow> error + real" where
  "np_dot a b =
     (if length a = length b then Inr (sum_list (map2 (*) a b)) else Inl ValueError)"

text \<open>
  The loop of \<open>_reconocer_persona\<close> over \<open>personas_registradas.items()\<close>, with its two
  variables \<open>mejor_match\<close> and \<open>mejor_similitud\<close>.
\<close>

fun reconocer_bucle ::
  "(string \<times> persona_info) list \<Rightarrow> real list \<Rightarrow> string option \<Rightarrow> real
     \<Rightarrow> error + (string option \<times> real)" where
  "reconocer_bucle [] emb mejor_match mejor_similitud = Inr (mejor_match, mejor_similitud)"
| "reconocer_bucle ((nombre, datos) # resto) emb mejor_match mejor_similitud =
     (case p_embedding datos of
        None \<Rightarrow> reconocer_bucle resto emb mejor_match mejor_similitud
      | Some registrado \<Rightarrow>
          if length registrado = 0 then reconocer_bucle resto emb mejor_match mejor_similitud
          else
            (case np_dot emb registrado of
               Inl e \<Rightarrow> Inl e
             | Inr similitud \<Rightarrow>
                 if similitud > mejor_similitud
                 then reconocer_bucle resto emb (Some nombre) similitud
                 else reconocer_bucle resto emb mejor_match mejor_similitud))"

definition reconocer_persona ::
  "(string \<times> persona_info) list \<Rightarrow> real list \<Rightarrow> real \<Rightarrow> error + (string option \<times> real)" where
  "reconocer_persona personas emb umbral =
     (case reconocer_bucle personas emb None 0 of
        Inl e \<Rightarrow> Inl e
      | Inr (mejor_match, mejor_similitud) \<Rightarrow>
          if mejor_similitud \<ge> umbral then Inr (mejor_match, mejor_similitud)
          else Inr (None, 0))"

text \<open>The default threshold of \<open>_reconocer_persona\<close>, 0.4.\<close>

definition umbral_defecto :: real where
  "umbral_defecto = 4 / 10"

text \<open>
  The similarities the loop computes, in the order of the store: the entries that
  have a non-empty embedding, each with its dot product with the query.
\<close>

definition candidatos :: "(string \<times> persona_info) list \<Rightarrow> real list \<Rightarrow> (string \<times> real) list" where
  "candidatos personas emb =
     concat (map (\<lambda>(nombre, datos).
        case p_embedding datos of
          None \<Rightarrow> []
        | Some registrado \<Rightarrow>
            if registrado = [] then [] else [(nombre, sum_list (map2 (*) emb registrado))])
       personas)"

text \<open>
  \<open>detectar_rostros\<close>: one dictionary per detected face, the keys in the order the code
  assigns them. \<open>nombre or "Desconocido"\<close> replaces \<open>None\<close> and the empty name.
\<close>

definition opcional :: "('a \<Rightarrow> valor) \<Rightarrow> 'a option \<Rightarrow> valor" where
  "opcional f x = (case x of None \<Rightarrow> VNone | Some v \<Rightarrow> f v)"

fun detectar_bucle :: "mundo \<Rightarrow> face list \<Rightarrow> dict list \<Rightarrow> error + dict list" where
  "detectar_bucle w [] resultados = Inr resultados"
| "detectar_bucle w (face # faces) resultados =
     (let genero_etiqueta =
            opcional (\<lambda>s. VStr (if s = ''M'' then ''Masculino'' else ''Femenino'')) (f_sex face);
          resultado =
            [(''bbox'', VLista (f_bbox face)),
             (''edad'', opcional VInt (f_age face)),
             (''genero'', genero_etiqueta),
             (''confianza'', opcional VReal (f_det_score face)),
             (''embedding'', VVector (f_normed_embedding face))]
      in case reconocer_persona (personas_registradas w) (f_normed_embedding face) umbral_defecto of
           Inl e \<Rightarrow> Inl e
         | Inr (nombre, similitud) \<Rightarrow>
             detectar_bucle w faces
               (resultados @
                [AList.update ''similitud'' (VReal similitud)
                   (AList.update ''nombre''
                      (VStr (case nombre of
                               None \<Rightarrow> ''Desconocido''
                             | Some n \<Rightarrow> if n = [] then ''Desconocido'' else n))
                      resultado)]))"

definition detectar_rostros :: "mundo \<Rightarrow> face list \<Rightarrow> error + dict list" where
  "detectar_rostros w faces = detectar_bucle w faces []"

text \<open>
  The endpoint \<open>/api/detectar\<close>, after detection and drawing: the key \<open>embedding\<close> is
  deleted from every face that has it, and the faces are returned with their count.
\<close>

record respuesta_detectar =
  rd_rostros :: "dict list"
  rd_total_rostros :: nat

definition api_detectar_rostros :: "mundo \<Rightarrow> face list \<Rightarrow> error + respuesta_detectar" where
  "api_detectar_rostros w faces =
     (case detectar_rostros w faces of
        Inl e \<Rightarrow> Inl e
      | Inr rostros \<Rightarrow>
          let limpios =
                map (\<lambda>rostro. if ''embedding'' \<in> fst ` set rostro
                               then AList.delete ''embedding'' rostro else rostro) rostros
          in Inr \<lparr>rd_rostros = limpios, rd_total_rostros = length limpios\<rparr>)"

subsection \<open>SupabaseService: people\<close>

text \<open>
  \<open>_subir_imagen\<close>: \<open>foto\<close> is the public URL the object storage answers with (\<open>None\<close> when
  the image cannot be encoded); a failing client gives \<open>None\<close>.
\<close>

definition subir_imagen :: "mundo \<Rightarrow> string option \<Rightarrow> string option" where
  "subir_imagen w foto =
     (if \<not> enabled w then None else if remoto_falla w then None else foto)"

text \<open>
  \<open>upsert(payload, on_conflict="nombre")\<close>: a row with the name is overwritten in the
  columns the payload has, a new name is added. The payload has \<open>foto_url\<close> only when the
  URL is not empty.
\<close>

fun upsert_persona :: "fila_persona \<Rightarrow> fila_persona list \<Rightarrow> fila_persona list" where
  "upsert_persona p [] = [p]"
| "upsert_persona p (q # qs) =
     (if fp_nombre q = fp_nombre p
      then (if fp_foto_url p = None then p\<lparr>fp_foto_url := fp_foto_url q\<rparr> else p) # qs
      else q # upsert_persona p qs)"

text \<open>
  \<open>guardar_persona\<close>. The caller always passes a non-empty \<open>fecha_registro\<close>, so the
  fallback of the payload to the current UTC time is not part of the model.
\<close>

definition guardar_persona ::
  "mundo \<Rightarrow> string \<Rightarrow> real list \<Rightarrow> int option \<Rightarrow> string option \<Rightarrow> string \<Rightarrow> string option
     \<Rightarrow> string option \<times> mundo" where
  "guardar_persona w nombre embedding edad genero fecha_registro foto =
     (if \<not> enabled w then (None, w)
      else
        let foto_url = subir_imagen w foto;
            payload = \<lparr>fp_nombre = nombre, fp_embedding = embedding, fp_edad = edad,
                       fp_genero = genero, fp_fecha_registro = Some fecha_registro,
                       fp_foto_url = (if foto_url = Some [] then None else foto_url)\<rparr>
        in if remoto_falla w then (foto_url, w)
           else (foto_url, w\<lparr>tabla_personas := upsert_persona payload (tabla_personas w)\<rparr>))"

definition fila_a_dict :: "fila_persona \<Rightarrow> dict" where
  "fila_a_dict row =
     (let genero = fp_genero row;
          genero_texto = (if genero = Some ''M'' then ''Masculino''
                          else if genero = Some ''F'' then ''Femenino'' else ''N/A'')
      in [(''nombre'', VStr (fp_nombre row)),
          (''fecha_registro'', opcional VStr (fp_fecha_registro row)),
          (''edad'', opcional VInt (fp_edad row)),
          (''genero'', VStr genero_texto),
          (''foto_url'', opcional VStr (fp_foto_url row))])"

definition supabase_listar_personas :: "mundo \<Rightarrow> dict list" where
  "supabase_listar_personas w =
     (if \<not> enabled w then []
      else if remoto_falla w then []
      else map fila_a_dict (sort_key fp_nombre (tabla_personas w)))"

definition supabase_eliminar_persona :: "mundo \<Rightarrow> string \<Rightarrow> bool \<times> mundo" where
  "supabase_eliminar_persona w nombre =
     (if \<not> enabled w then (False, w)
      else if remoto_falla w then (False, w)
      else (True, w\<lparr>tabla_personas := filter (\<lambda>q. fp_nombre q \<noteq> nombre) (tabla_personas w)\<rparr>))"

subsection \<open>Registration, listing and removal\<close>

record resultado_persona =
  rp_exito :: bool
  rp_mensaje :: string
  rp_total_registrados :: "nat option"

text \<open>
  \<open>_guardar_personas_local\<close>: \<open>os.makedirs\<close>, \<open>open(..., "wb")\<close>, \<open>pickle.dump\<close>, with the
  same three outcomes.
\<close>

definition guardar_personas_local :: "mundo \<Rightarrow> (error + unit) \<times> mundo" where
  "guardar_personas_local w =
     (case disco_falla w of
        SinFallo \<Rightarrow> (Inr (), w\<lparr>archivo_personas := Contenido (personas_registradas w)\<rparr>)
      | FalloAlAbrir \<Rightarrow> (Inl OSError, w)
      | FalloAlEscribir \<Rightarrow> (Inl OSError, w\<lparr>archivo_personas := Truncado\<rparr>))"

text \<open>
  \<open>registrar_persona\<close>. \<open>faces\<close> is what the recognition library detects in the image,
  \<open>foto\<close> what the object storage answers when the image is uploaded. The photo files
  on the local disk are not part of the state. \<open>persona_info_de\<close> is the dictionary
  \<open>persona_info\<close> the code builds from the one face: its embedding, the time of
  registration, the age when the face has one, and the gender (\<open>M\<close> when the face has no
  \<open>sex\<close> attribute).
\<close>

definition persona_info_de :: "face \<Rightarrow> datetime \<Rightarrow> persona_info" where
  "persona_info_de face ahora =
     \<lparr>p_embedding = Some (f_normed_embedding face),
      p_fecha_registro = Some (strftime_fecha ahora @ '' '' @ strftime_hora ahora),
      p_edad = f_age face,
      p_genero = Some (if f_sex face = None \<or> f_sex face = Some ''M'' then ''M'' else ''F''),
      p_foto_url = None\<rparr>"

definition registrar_persona ::
  "mundo \<Rightarrow> string \<Rightarrow> face list \<Rightarrow> datetime \<Rightarrow> string option
     \<Rightarrow> (error + resultado_persona) \<times> mundo" where
  "registrar_persona w nombre faces ahora foto =
     (if length faces = 0
      then (Inr \<lparr>rp_exito = False, rp_mensaje = ''No se detecto ningun rostro en la imagen'',
                 rp_total_registrados = None\<rparr>, w)
      else if length faces > 1
      then (Inr \<lparr>rp_exito = False,
                 rp_mensaje = ''Se detectaron multiples rostros. Usa una sola persona'',
                 rp_total_registrados = None\<rparr>, w)
      else
        let face = faces ! 0;
            persona_info = persona_info_de face ahora;
            w1 = w\<lparr>personas_registradas := AList.update nombre persona_info (personas_registradas w)\<rparr>;
            exito = \<lparr>rp_exito = True, rp_mensaje = nombre @ '' registrado correctamente'',
                     rp_total_registrados = Some (length (personas_registradas w1))\<rparr>
        in if enabled w1
           then (Inr exito,
                 snd (guardar_persona w1 nombre (f_normed_embedding face) (p_edad persona_info)
                        (p_genero persona_info)
                        (strftime_fecha ahora @ '' '' @ strftime_hora ahora) foto))
           else
             (case guardar_personas_local w1 of
                (Inl e, w2) \<Rightarrow> (Inl e, w2)
              | (Inr _, w2) \<Rightarrow> (Inr exito, w2)))"

definition listar_personas :: "mundo \<Rightarrow> dict list" where
  "listar_personas w =
     (if enabled w then supabase_listar_personas w
      else
        map (\<lambda>(nombre, datos).
               [(''nombre'', VStr nombre),
                (''fecha_registro'', opcional VStr (p_fecha_registro datos)),
                (''edad'', opcional VInt (p_edad datos)),
                (''genero'', VStr (if p_genero datos = Some ''M'' then ''Masculino'' else ''Femenino''))])
          (personas_registradas w))"

definition eliminar_persona :: "mundo \<Rightarrow> string \<Rightarrow> (error + resultado_persona) \<times> mundo" where
  "eliminar_persona w nombre =
     (if nombre \<notin> fst ` set (personas_registradas w)
      then (Inr \<lparr>rp_exito = False, rp_mensaje = nombre @ '' no encontrado'',
                 rp_total_registrados = None\<rparr>, w)
      else
        let w1 = w\<lparr>personas_registradas := AList.delete nombre (personas_registradas w)\<rparr>;
            exito = \<lparr>rp_exito = True, rp_mensaje = nombre @ '' eliminado correctamente'',
                     rp_total_registrados = None\<rparr>
        in if enabled w1 then (Inr exito, snd (supabase_eliminar_persona w1 nombre))
           else
             (case guardar_personas_local w1 of
                (Inl e, w2) \<Rightarrow> (Inl e, w2)
              | (Inr _, w2) \<Rightarrow> (Inr exito, w2)))"

section \<open>Notions used to state the properties\<close>

text \<open>
  The event type \<open>_evaluar_registro\<close> gives after the events \<open>h\<close> of a person's day:
  \<open>entrada\<close> after none, the opposite of the last one otherwise.
\<close>

definition tipo_siguiente :: "registro list \<Rightarrow> string" where
  "tipo_siguiente h =
     (if h = [] then ''entrada'' else if r_tipo (last h) = ''entrada'' then ''salida'' else ''entrada'')"

text \<open>
  On the hosted store: the client answers, and the rows of the person on the date stand
  in the table in the order of their times, so that the latest row is the last.
\<close>

definition remoto_en_orden :: "mundo \<Rightarrow> string \<Rightarrow> string \<Rightarrow> bool" where
  "remoto_en_orden w nombre f \<longleftrightarrow>
     (enabled w \<longrightarrow> \<not> remoto_falla w \<and>
        sorted (map a_hora (filter (\<lambda>row. a_persona_nombre row = nombre \<and> a_fecha row = f)
                              (tabla_asistencias w))))"

section \<open>Example states and instants\<close>

text \<open>
  The instants of the example day 2024-03-09, a service on local storage with an empty
  ledger, the same service after Ana's entrance at 09:00:00, and a face recognised as Ana.
\<close>

definition dia_ejemplo :: "int \<Rightarrow> int \<Rightarrow> int \<Rightarrow> datetime" where
  "dia_ejemplo h m s =
     \<lparr>year = 2024, month = 3, day = 9, hour = h, minute = m, second = s, microsecond = 250000\<rparr>"

definition mundo_local :: mundo where
  "mundo_local =
     \<lparr>enabled = False, remoto_falla = False, disco_falla = SinFallo, tabla_asistencias = [],
      tabla_personas = [], asistencia_cache = [], archivo_asistencia = Contenido [],
      personas_registradas = [], archivo_personas = Contenido []\<rparr>"

definition entrada_ana :: registro where
  "entrada_ana = \<lparr>r_tipo = ''entrada'', r_hora = ''09:00:00''\<rparr>"

definition mundo_ana :: mundo where
  "mundo_ana = mundo_local\<lparr>asistencia_cache := [(''2024-03-09'', [(''Ana'', [entrada_ana])])]\<rparr>"

definition rostro_ana :: dict where
  "rostro_ana = [(''nombre'', VStr ''Ana''), (''similitud'', VReal 1)]"

text \<open>The day of the specification's scenario: Ana entered, Bob entered and left.\<close>

definition registros_ejemplo :: registros_dia where
  "registros_ejemplo =
     [(''Ana'', [\<lparr>r_tipo = ''entrada'', r_hora = ''09:00:00''\<rparr>]),
      (''Bob'', [\<lparr>r_tipo = ''entrada'', r_hora = ''09:01:00''\<rparr>,
                 \<lparr>r_tipo = ''salida'', r_hora = ''17:30:00''\<rparr>])]"

text \<open>
  A service on the hosted store whose client fails, and one on a full disk: the file is
  opened, and the write into it fails.
\<close>

definition mundo_remoto_caido :: mundo where
  "mundo_remoto_caido = mundo_local\<lparr>enabled := True, remoto_falla := True\<rparr>"

definition mundo_disco_lleno :: mundo where
  "mundo_disco_lleno = mundo_local\<lparr>disco_falla := FalloAlEscribir\<rparr>"

text \<open>An identity store with three persons; Bob and Eva have the same embedding.\<close>

definition persona_con :: "real list \<Rightarrow> persona_info" where
  "persona_con e = \<lparr>p_embedding = Some e, p_fecha_registro = Some ''2024-03-01 08:00:00'',
                    p_edad = Some 30, p_genero = Some ''F'', p_foto_url = None\<rparr>"

definition personas_ejemplo :: "(string \<times> persona_info) list" where
  "personas_ejemplo = [(''Ana'', persona_con [1, 0]), (''Bob'', persona_con [0, 1]),
                       (''Eva'', persona_con [0, 1])]"

text \<open>A detected face with a given embedding; a store holding the three persons.\<close>

definition cara :: "real list \<Rightarrow> face" where
  "cara e = \<lparr>f_bbox = [10, 20, 110, 140], f_age = Some 31, f_sex = Some ''F'',
             f_det_score = Some (9/10), f_normed_embedding = e\<rparr>"

definition mundo_personas :: mundo where
  "mundo_personas = mundo_local\<lparr>personas_registradas := personas_ejemplo\<rparr>"

text \<open>A service on the hosted store, with one person in the table.\<close>

definition mundo_remoto_personas :: mundo where
  "mundo_remoto_personas = mundo_local\<lparr>enabled := True, tabla_personas :=
      [\<lparr>fp_nombre = ''Ana'', fp_embedding = [1, 0], fp_edad = Some 31, fp_genero = Some ''F'',
        fp_fecha_registro = Some ''2024-03-01 08:00:00'', fp_foto_url = None\<rparr>]\<rparr>"

section \<open>Properties of the attendance policy\<close>

subsection \<open>Time arithmetic\<close>


lemma es_digito_digito:
  "0 \<le> n \<Longrightarrow> n < 10 \<Longrightarrow> es_digito (digito n) \<and> valor_digito (digito n) = n"
  by (simp add: es_digito_def valor_digito_def digito_def of_char_of)

lemma campo_dos_digitos:
  assumes "0 \<le> n" "n < tope" "tope \<le> 100"
  shows "campo tope (dos_digitos n @ resto) = Some (n, resto)"
proof -
  have a: "0 \<le> n div 10 mod 10" "n div 10 mod 10 < 10" "0 \<le> n mod 10" "n mod 10 < 10"
    by simp_all
  have b: "n div 10 mod 10 = n div 10"
    using assms by simp
  have c: "10 * (n div 10) + n mod 10 = n"
    by simp
  show ?thesis
    using assms es_digito_digito[OF a(1) a(2)] es_digito_digito[OF a(3) a(4)]
    by (simp add: dos_digitos_def b c)
qed

text \<open>What \<open>strftime\<close> writes, \<open>strptime\<close> reads back.\<close>

lemma strptime_strftime:
  assumes "datetime_valido d"
  shows "strptime_hora (strftime_hora d) =
           Inr \<lparr>t_hour = hour d, t_minute = minute d, t_second = second d\<rparr>"
  using assms
  by (simp add: strptime_hora_def strftime_hora_def datetime_valido_def campo_dos_digitos
      campo_dos_digitos[where resto="[]", simplified] dos_puntos_def)

subsection \<open>Reading the day's events\<close>

lemma obtener_update:
  "obtener (AList.update k v d) n x = (if n = k then v else obtener d n x)"
  by (simp add: obtener_def update_conv')

lemma obtener_group_by_person_desde:
  "obtener (group_by_person_desde agrupado rows) n [] =
     obtener agrupado n [] @
       map (\<lambda>row. \<lparr>r_tipo = a_tipo row, r_hora = a_hora row\<rparr>)
         (filter (\<lambda>row. a_persona_nombre row = n) rows)"
proof (induction rows arbitrary: agrupado)
  case Nil
  then show ?case by simp
next
  case (Cons row rows)
  show ?case
    by (simp add: Cons.IH Let_def obtener_update)
qed

lemma obtener_group_by_person:
  "obtener (group_by_person rows) n [] =
     map (\<lambda>row. \<lparr>r_tipo = a_tipo row, r_hora = a_hora row\<rparr>)
       (filter (\<lambda>row. a_persona_nombre row = n) rows)"
  by (simp add: group_by_person_def obtener_group_by_person_desde) (simp add: obtener_def)

subsection \<open>No prior event\<close>

text \<open>
  C1. A person with no attendance event recorded today (\<open>obtener_asistencia_persona\<close>
  returns the empty list, on local storage or on the hosted store) may be recorded, as
  an entrance: \<open>_evaluar_registro\<close> with no last event and \<open>verificar_puede_registrar\<close> both
  return \<open>(True, "entrada")\<close>, for every interval and every instant.
\<close>

theorem sin_evento_previo_entrada:
  assumes "obtener_asistencia_persona w nombre None ahora = []"
  shows "evaluar_registro nombre None tiempo_espera hora_actual hoy = Inr (True, Some ''entrada'') \<and>
         verificar_puede_registrar w nombre tiempo_espera ahora = Inr (True, Some ''entrada'')"
proof -
  have a: "evaluar_registro nombre None tiempo_espera t1 t2 = Inr (True, Some ''entrada'')"
    for t1 t2
    by (simp add: evaluar_registro_def)
  have "verificar_puede_registrar w nombre tiempo_espera ahora = Inr (True, Some ''entrada'')"
  proof (cases "enabled w")
    case False
    with assms show ?thesis
      by (simp add: verificar_puede_registrar_def obtener_asistencia_persona_def
          obtener_asistencia_fecha_def obtener_asistencia_hoy_def a)
  next
    case True
    show ?thesis
    proof (cases "remoto_falla w")
      case True
      with \<open>enabled w\<close> show ?thesis
        by (simp add: verificar_puede_registrar_def obtener_ultimo_registro_def a)
    next
      case False
      let ?f = "strftime_fecha ahora"
      have "filter (\<lambda>row. a_persona_nombre row = nombre)
              (sort_key a_hora (filter (\<lambda>row. a_fecha row = ?f) (tabla_asistencias w))) = []"
        using assms \<open>enabled w\<close> False
        by (simp add: obtener_asistencia_persona_def obtener_asistencia_fecha_def
            obtener_asistencia_por_fecha_def obtener_group_by_person)
      then have "filter (\<lambda>row. a_persona_nombre row = nombre \<and> a_fecha row = ?f)
                   (tabla_asistencias w) = []"
        by (auto simp: filter_empty_conv)
      then show ?thesis
        using \<open>enabled w\<close> False
        by (simp add: verificar_puede_registrar_def obtener_ultimo_registro_def a)
    qed
  qed
  with a show ?thesis by simp
qed

theorem sin_evento_previo_entrada_witness:
  "obtener_asistencia_persona mundo_local ''Ana'' None (dia_ejemplo 9 0 0) = [] \<and>
   evaluar_registro ''Ana'' None 10 (dia_ejemplo 9 0 0) (dia_ejemplo 9 0 0)
     = Inr (True, Some ''entrada'') \<and>
   verificar_puede_registrar mundo_local ''Ana'' 10 (dia_ejemplo 9 0 0)
     = Inr (True, Some ''entrada'')"
proof -
  have h: "obtener_asistencia_persona mundo_local ''Ana'' None (dia_ejemplo 9 0 0) = []"
    by code_simp
  from sin_evento_previo_entrada[OF h, of 10 "dia_ejemplo 9 0 0" "dia_ejemplo 9 0 0"] h
  show ?thesis by blast
qed

subsection \<open>The debounce window\<close>

text \<open>
  C2. When the seconds elapsed since the person's most recent event today are fewer than
  the interval, \<open>_evaluar_registro\<close> returns \<open>(False, None)\<close>. The most recent event is the
  last one of today's list on local storage and the answer of \<open>obtener_ultimo_registro\<close>
  on the hosted store; with the default interval of 10 seconds the policy check rejects,
  and the request that shows the person's face records nothing and leaves the whole
  state, the ledger included, as it was.
\<close>

theorem debounce_rechaza_sin_registrar:
  assumes "diff_segundos u hora_actual hoy = Inr d" and "d < tiempo_espera"
  shows "evaluar_registro nombre (Some u) tiempo_espera hora_actual hoy = Inr (False, None) \<and>
         (hora_actual = hoy \<and> tiempo_espera = 10 \<and>
          map_of rostro ''nombre'' = Some (VStr nombre) \<and>
          ((\<not> enabled w \<and> obtener_asistencia_persona w nombre None hoy \<noteq> [] \<and>
              last (obtener_asistencia_persona w nombre None hoy) = u) \<or>
           (enabled w \<and> obtener_ultimo_registro w nombre (strftime_fecha hoy) = Some u))
          \<longrightarrow> verificar_puede_registrar w nombre 10 hoy = Inr (False, None) \<and>
              api_registrar_asistencia w [rostro] hoy = (Inr [], w))"
proof -
  have a: "evaluar_registro nombre (Some u) tiempo_espera hora_actual hoy = Inr (False, None)"
    using assms by (simp add: evaluar_registro_def)
  have "verificar_puede_registrar w nombre 10 hoy = Inr (False, None)"
    if "hora_actual = hoy" "tiempo_espera = 10"
      "(\<not> enabled w \<and> obtener_asistencia_persona w nombre None hoy \<noteq> [] \<and>
          last (obtener_asistencia_persona w nombre None hoy) = u) \<or>
       (enabled w \<and> obtener_ultimo_registro w nombre (strftime_fecha hoy) = Some u)"
    using that a
    by (auto simp: verificar_puede_registrar_def obtener_asistencia_persona_def
        obtener_asistencia_fecha_def obtener_asistencia_hoy_def)
  with a show ?thesis
    by (auto simp: api_registrar_asistencia_def)
qed

theorem debounce_rechaza_sin_registrar_witness:
  "diff_segundos entrada_ana (dia_ejemplo 9 0 5) (dia_ejemplo 9 0 5) = Inr 5 \<and>
   map_of rostro_ana ''nombre'' = Some (VStr ''Ana'') \<and>
   \<not> enabled mundo_ana \<and>
   obtener_asistencia_persona mundo_ana ''Ana'' None (dia_ejemplo 9 0 5) = [entrada_ana] \<and>
   evaluar_registro ''Ana'' (Some entrada_ana) 10 (dia_ejemplo 9 0 5) (dia_ejemplo 9 0 5)
     = Inr (False, None) \<and>
   verificar_puede_registrar mundo_ana ''Ana'' 10 (dia_ejemplo 9 0 5) = Inr (False, None) \<and>
   api_registrar_asistencia mundo_ana [rostro_ana] (dia_ejemplo 9 0 5) = (Inr [], mundo_ana)"
proof -
  have h1: "diff_segundos entrada_ana (dia_ejemplo 9 0 5) (dia_ejemplo 9 0 5) = Inr 5"
    by code_simp
  have h2: "map_of rostro_ana ''nombre'' = Some (VStr ''Ana'')"
    by code_simp
  have h3: "\<not> enabled mundo_ana"
    by code_simp
  have h4: "obtener_asistencia_persona mundo_ana ''Ana'' None (dia_ejemplo 9 0 5) = [entrada_ana]"
    by code_simp
  have h5: "(5::int) < 10"
    by simp
  from debounce_rechaza_sin_registrar[OF h1 h5, of "''Ana''" rostro_ana mundo_ana] h1 h2 h3 h4
  show ?thesis by simp
qed

subsection \<open>The outcomes of the policy and the range of the elapsed seconds\<close>




section \<open>Statistics of a day\<close>

lemma contar_estadisticas_filter:
  "contar_estadisticas evs ce cs pr =
     (ce + length (filter (\<lambda>e. \<exists>r \<in> set e. r_tipo r = ''entrada'') evs),
      cs + length (filter (\<lambda>e. \<exists>r \<in> set e. r_tipo r = ''salida'') evs),
      pr + length (filter (\<lambda>e. (\<exists>r \<in> set e. r_tipo r = ''entrada'') \<and>
                               \<not> (\<exists>r \<in> set e. r_tipo r = ''salida'')) evs))"
  by (induction evs arbitrary: ce cs pr) (simp_all add: Let_def list_ex_iff)

text \<open>In a dictionary, the keys whose value satisfies \<open>P\<close> are as many as those values.\<close>

lemma card_claves:
  assumes "distinct (map fst xs)"
  shows "card {n. \<exists>v. map_of xs n = Some v \<and> P v} = length (filter (\<lambda>v. P v) (map snd xs))"
proof -
  let ?ys = "filter (\<lambda>p. P (snd p)) xs"
  have "{n. \<exists>v. map_of xs n = Some v \<and> P v} = set (map fst ?ys)"
    using assms by (force simp: map_of_eq_Some_iff)
  moreover have "distinct (map fst ?ys)"
    using assms by (rule distinct_map_filter)
  ultimately have "card {n. \<exists>v. map_of xs n = Some v \<and> P v} = length (map fst ?ys)"
    by (simp only: distinct_card)
  also have "\<dots> = length (filter (\<lambda>v. P v) (map snd xs))"
    by (simp add: filter_map comp_def)
  finally show ?thesis .
qed

text \<open>
  C5. For the records of a day (a dictionary: its keys are distinct),
  \<open>_calcular_estadisticas\<close> returns as \<open>total_personas\<close> the number of persons in the
  records (the number of persons with at least one event, when no person's list is
  empty), as \<open>con_entrada\<close> the number of persons with at least one entrance, as
  \<open>con_salida\<close> the number with at least one exit, and as \<open>presentes\<close> the number with at
  least one entrance and no exit. In the example day Bob, with an entrance and an exit,
  is not counted as present.
\<close>

theorem estadisticas_cuentan_personas:
  assumes "distinct (map fst registros)"
  shows "total_personas (calcular_estadisticas registros) = card (dom (map_of registros)) \<and>
         ((\<forall>eventos \<in> snd ` set registros. eventos \<noteq> []) \<longrightarrow>
            total_personas (calcular_estadisticas registros) =
              card {n. \<exists>eventos. map_of registros n = Some eventos \<and> eventos \<noteq> []}) \<and>
         con_entrada (calcular_estadisticas registros) =
           card {n. \<exists>eventos. map_of registros n = Some eventos \<and>
                     (\<exists>r \<in> set eventos. r_tipo r = ''entrada'')} \<and>
         con_salida (calcular_estadisticas registros) =
           card {n. \<exists>eventos. map_of registros n = Some eventos \<and>
                     (\<exists>r \<in> set eventos. r_tipo r = ''salida'')} \<and>
         presentes (calcular_estadisticas registros) =
           card {n. \<exists>eventos. map_of registros n = Some eventos \<and>
                     (\<exists>r \<in> set eventos. r_tipo r = ''entrada'') \<and>
                     \<not> (\<exists>r \<in> set eventos. r_tipo r = ''salida'')}"
proof -
  have t: "total_personas (calcular_estadisticas registros) = length registros"
    by (simp add: calcular_estadisticas_def split: prod.splits)
  have d: "card (dom (map_of registros)) = length registros"
    using assms by (simp add: dom_map_of_conv_image_fst distinct_card flip: set_map)
  have n: "card {n. \<exists>eventos. map_of registros n = Some eventos \<and> eventos \<noteq> []} = length registros"
    if "\<forall>eventos \<in> snd ` set registros. eventos \<noteq> []"
  proof -
    have "filter (\<lambda>v. v \<noteq> []) (map snd registros) = map snd registros"
      using that by (auto simp: filter_id_conv)
    then show ?thesis
      using card_claves[OF assms, of "\<lambda>v. v \<noteq> []"] by simp
  qed
  have e: "con_entrada (calcular_estadisticas registros) =
      length (filter (\<lambda>v. \<exists>r \<in> set v. r_tipo r = ''entrada'') (map snd registros))"
    by (simp add: calcular_estadisticas_def contar_estadisticas_filter)
  have s: "con_salida (calcular_estadisticas registros) =
      length (filter (\<lambda>v. \<exists>r \<in> set v. r_tipo r = ''salida'') (map snd registros))"
    by (simp add: calcular_estadisticas_def contar_estadisticas_filter)
  have p: "presentes (calcular_estadisticas registros) =
      length (filter (\<lambda>v. (\<exists>r \<in> set v. r_tipo r = ''entrada'') \<and>
                           \<not> (\<exists>r \<in> set v. r_tipo r = ''salida'')) (map snd registros))"
    by (simp add: calcular_estadisticas_def contar_estadisticas_filter)
  show ?thesis
    unfolding e s p
    using t d n card_claves[OF assms] by simp
qed

theorem estadisticas_cuentan_personas_witness:
  "distinct (map fst registros_ejemplo) \<and>
   calcular_estadisticas registros_ejemplo =
     \<lparr>total_personas = 2, con_entrada = 2, con_salida = 1, presentes = 1\<rparr> \<and>
   card (dom (map_of registros_ejemplo)) = 2"
proof -
  have h: "distinct (map fst registros_ejemplo)"
    by code_simp
  have c: "calcular_estadisticas registros_ejemplo =
     \<lparr>total_personas = 2, con_entrada = 2, con_salida = 1, presentes = 1\<rparr>"
    by code_simp
  from estadisticas_cuentan_personas[OF h] h c show ?thesis
    by simp
qed

section \<open>Persistence failures\<close>

text \<open>
  On the hosted store with a failing client, \<open>guardar_asistencia\<close> returns its empty
  result, the table is unchanged, and \<open>registrar_asistencia\<close> returns \<open>exito = True\<close>: the
  failure is not surfaced.
\<close>

theorem fallo_remoto_reporta_exito:
  "guardar_asistencia mundo_remoto_caido ''Ana'' ''entrada'' ''2024-03-09'' ''09:00:00''
     = (None, mundo_remoto_caido) \<and>
   registrar_asistencia mundo_remoto_caido ''Ana'' ''entrada'' (dia_ejemplo 9 0 0)
     = (Inr \<lparr>ra_exito = True, ra_nombre = ''Ana'', ra_tipo = ''entrada'',
              ra_hora = ''09:00:00'', ra_fecha = ''2024-03-09''\<rparr>, mundo_remoto_caido)"
  by code_simp

text \<open>
  C8, as amended. A failure of the hosted store is caught inside \<open>SupabaseService\<close>:
  \<open>guardar_asistencia\<close> returns its empty result and leaves the store as it was, and
  \<open>registrar_asistencia\<close> still returns \<open>exito = True\<close>. A failed write to the local file,
  wherever it fails, is surfaced: \<open>registrar_asistencia\<close> raises \<open>OSError\<close> instead of
  returning a result, and the request that was recording the person fails with that
  error.
\<close>

theorem fallos_de_persistencia:
  "(enabled w \<and> remoto_falla w \<longrightarrow>
      guardar_asistencia w nombre tipo fecha hora = (None, w) \<and>
      registrar_asistencia w nombre tipo ahora =
        (Inr \<lparr>ra_exito = True, ra_nombre = nombre, ra_tipo = tipo,
               ra_hora = strftime_hora ahora, ra_fecha = strftime_fecha ahora\<rparr>, w)) \<and>
   (\<not> enabled w \<and> disco_falla w \<noteq> SinFallo \<longrightarrow>
      fst (registrar_asistencia w nombre tipo ahora) = Inl OSError \<and>
      (map_of rostro ''nombre'' = Some (VStr nombre) \<and> nombre \<noteq> [] \<and> nombre \<noteq> ''Desconocido'' \<and>
       verificar_puede_registrar w nombre 10 ahora = Inr (True, Some tipo) \<longrightarrow>
         fst (api_registrar_asistencia w [rostro] ahora) = Inl OSError))"
proof -
  have r: "fst (registrar_asistencia w nombre tipo ahora) = Inl OSError"
    if "\<not> enabled w" "disco_falla w \<noteq> SinFallo"
    using that
    by (cases "disco_falla w")
      (simp_all add: registrar_asistencia_def registrar_local_def guardar_asistencia_local_def
        Let_def)
  have a: "fst (api_registrar_asistencia w [rostro] ahora) = Inl OSError"
    if "\<not> enabled w" "disco_falla w \<noteq> SinFallo"
      "map_of rostro ''nombre'' = Some (VStr nombre)" "nombre \<noteq> []" "nombre \<noteq> ''Desconocido''"
      "verificar_puede_registrar w nombre 10 ahora = Inr (True, Some tipo)"
  proof -
    obtain x w' where e: "registrar_asistencia w nombre tipo ahora = (x, w')"
      by (cases "registrar_asistencia w nombre tipo ahora")
    with r[OF that(1,2)] have "x = Inl OSError"
      by simp
    with e that(3-6) show ?thesis
      by (simp add: api_registrar_asistencia_def)
  qed
  have h: "guardar_asistencia w nombre tipo fecha hora = (None, w) \<and>
      registrar_asistencia w nombre tipo ahora =
        (Inr \<lparr>ra_exito = True, ra_nombre = nombre, ra_tipo = tipo,
               ra_hora = strftime_hora ahora, ra_fecha = strftime_fecha ahora\<rparr>, w)"
    if "enabled w" "remoto_falla w" for fecha hora
    using that by (simp add: guardar_asistencia_def registrar_asistencia_def Let_def)
  from r a h show ?thesis
    by blast
qed

theorem fallos_de_persistencia_witness:
  "enabled mundo_remoto_caido \<and> remoto_falla mundo_remoto_caido \<and>
   \<not> enabled mundo_disco_lleno \<and> disco_falla mundo_disco_lleno = FalloAlEscribir \<and>
   map_of rostro_ana ''nombre'' = Some (VStr ''Ana'') \<and>
   verificar_puede_registrar mundo_disco_lleno ''Ana'' 10 (dia_ejemplo 9 0 0)
     = Inr (True, Some ''entrada'') \<and>
   guardar_asistencia mundo_remoto_caido ''Ana'' ''entrada'' ''2024-03-09'' ''09:00:00''
     = (None, mundo_remoto_caido) \<and>
   fst (registrar_asistencia mundo_disco_lleno ''Ana'' ''entrada'' (dia_ejemplo 9 0 0))
     = Inl OSError \<and>
   fst (api_registrar_asistencia mundo_disco_lleno [rostro_ana] (dia_ejemplo 9 0 0))
     = Inl OSError"
proof -
  have h1: "enabled mundo_remoto_caido \<and> remoto_falla mundo_remoto_caido"
    by code_simp
  have h2: "\<not> enabled mundo_disco_lleno \<and> disco_falla mundo_disco_lleno = FalloAlEscribir"
    by code_simp
  have h3: "map_of rostro_ana ''nombre'' = Some (VStr ''Ana'')"
    by code_simp
  have h4: "verificar_puede_registrar mundo_disco_lleno ''Ana'' 10 (dia_ejemplo 9 0 0)
              = Inr (True, Some ''entrada'')"
    by code_simp
  have h5: "''Ana'' \<noteq> [] \<and> ''Ana'' \<noteq> ''Desconocido''"
    by simp
  from fallos_de_persistencia[of mundo_remoto_caido "''Ana''" "''entrada''" "''2024-03-09''"
      "''09:00:00''" "dia_ejemplo 9 0 0" rostro_ana]
    fallos_de_persistencia[of mundo_disco_lleno "''Ana''" "''entrada''" "''2024-03-09''"
      "''09:00:00''" "dia_ejemplo 9 0 0" rostro_ana] h1 h2 h3 h4 h5
  show ?thesis by simp
qed

section \<open>Sequences of attempts\<close>

subsection \<open>The order of the written times\<close>

lemma of_char_digito:
  assumes "0 \<le> a" "a < 10"
  shows "(of_char (digito a) :: nat) = nat (48 + a)"
proof -
  have "(of_char (digito a) :: int) = 48 + a"
    using assms by (simp add: digito_def of_char_of)
  moreover have "(of_char (digito a) :: int) = int (of_char (digito a) :: nat)"
    by (rule of_nat_of_char[symmetric])
  ultimately show ?thesis by linarith
qed

lemma digito_less:
  assumes "0 \<le> a" "a < 10" "0 \<le> b" "b < 10"
  shows "digito a < digito b \<longleftrightarrow> a < b" and "digito a = digito b \<longleftrightarrow> a = b"
proof -
  show "digito a < digito b \<longleftrightarrow> a < b"
    using assms by (simp add: less_char_def of_char_digito)
  have "digito a = digito b \<Longrightarrow> a = b"
  proof -
    assume "digito a = digito b"
    then have "(of_char (digito a) :: nat) = of_char (digito b)" by simp
    then show "a = b" using assms by (simp add: of_char_digito)
  qed
  then show "digito a = digito b \<longleftrightarrow> a = b" by auto
qed

lemma lex10:
  fixes x y x' y' :: int
  assumes "0 \<le> y" "y < 10" "0 \<le> y'" "y' < 10"
  shows "10 * x + y < 10 * x' + y' \<longleftrightarrow> x < x' \<or> (x = x' \<and> y < y')"
    and "10 * x + y = 10 * x' + y' \<longleftrightarrow> x = x' \<and> y = y'"
proof -
  show "10 * x + y < 10 * x' + y' \<longleftrightarrow> x < x' \<or> (x = x' \<and> y < y')"
    using assms by auto
  have "x = x'" if "10 * x + y = 10 * x' + y'"
    using that assms by linarith
  then show "10 * x + y = 10 * x' + y' \<longleftrightarrow> x = x' \<and> y = y'"
    by auto
qed

lemma dos_digitos_le:
  assumes "0 \<le> a" "a < 100" "0 \<le> b" "b < 100"
  shows "dos_digitos a @ xs \<le> dos_digitos b @ ys \<longleftrightarrow> a < b \<or> (a = b \<and> xs \<le> ys)"
proof -
  have r: "0 \<le> a div 10 mod 10" "a div 10 mod 10 < 10" "0 \<le> a mod 10" "a mod 10 < 10"
    "0 \<le> b div 10 mod 10" "b div 10 mod 10 < 10" "0 \<le> b mod 10" "b mod 10 < 10"
    by simp_all
  have e: "a div 10 mod 10 = a div 10" "b div 10 mod 10 = b div 10"
    using assms by simp_all
  have "dos_digitos a @ xs \<le> dos_digitos b @ ys \<longleftrightarrow>
      a div 10 < b div 10 \<or> (a div 10 = b div 10 \<and> (a mod 10 < b mod 10 \<or> (a mod 10 = b mod 10 \<and> xs \<le> ys)))"
    unfolding dos_digitos_def
    using digito_less[OF r(1) r(2) r(5) r(6)] digito_less[OF r(3) r(4) r(7) r(8)]
    by (simp add: e)
  also have "\<dots> \<longleftrightarrow> a < b \<or> (a = b \<and> xs \<le> ys)"
  proof -
    have A: "a < b \<longleftrightarrow> a div 10 < b div 10 \<or> (a div 10 = b div 10 \<and> a mod 10 < b mod 10)"
      using lex10(1)[OF r(3) r(4) r(7) r(8), of "a div 10" "b div 10"] by simp
    have B: "a = b \<longleftrightarrow> a div 10 = b div 10 \<and> a mod 10 = b mod 10"
      using lex10(2)[OF r(3) r(4) r(7) r(8), of "a div 10" "b div 10"] by simp
    show ?thesis
      unfolding A B by blast
  qed
  finally show ?thesis .
qed

lemma strftime_hora_mono:
  assumes "datetime_valido tp" "datetime_valido t" "segundos_del_dia tp \<le> segundos_del_dia t"
  shows "strftime_hora tp \<le> strftime_hora t"
proof -
  have v: "0 \<le> hour tp" "hour tp < 100" "0 \<le> hour t" "hour t < 100"
    "0 \<le> minute tp" "minute tp < 100" "0 \<le> minute t" "minute t < 100"
    "0 \<le> second tp" "second tp < 100" "0 \<le> second t" "second t < 100"
    using assms(1,2) by (simp_all add: datetime_valido_def)
  have o: "hour tp < hour t \<or> (hour tp = hour t \<and>
             (minute tp < minute t \<or> (minute tp = minute t \<and> second tp \<le> second t)))"
    using assms unfolding datetime_valido_def segundos_del_dia_def by linarith
  have s: "dos_digitos (second tp) \<le> dos_digitos (second t) \<longleftrightarrow> second tp \<le> second t"
    using dos_digitos_le[OF v(9) v(10) v(11) v(12), of "[]" "[]"] by auto
  have m: "dos_digitos (minute tp) @ CHR '':'' # dos_digitos (second tp)
             \<le> dos_digitos (minute t) @ CHR '':'' # dos_digitos (second t) \<longleftrightarrow>
           minute tp < minute t \<or> (minute tp = minute t \<and> second tp \<le> second t)"
    unfolding dos_digitos_le[OF v(5) v(6) v(7) v(8)] using s by simp
  have h: "dos_digitos (hour tp) @ CHR '':'' # dos_digitos (minute tp) @ CHR '':'' # dos_digitos (second tp)
             \<le> dos_digitos (hour t) @ CHR '':'' # dos_digitos (minute t) @ CHR '':'' # dos_digitos (second t)"
    unfolding dos_digitos_le[OF v(1) v(2) v(3) v(4)] using m o by simp
  then show ?thesis
    by (simp add: strftime_hora_def)
qed

subsection \<open>The elapsed seconds and the prior event\<close>

lemma diff_segundos_separado:
  assumes "datetime_valido tp" "datetime_valido t"
    and "segundos_del_dia tp \<le> segundos_del_dia t" and "r_hora u = strftime_hora tp"
  shows "diff_segundos u t t = Inr (segundos_del_dia t - segundos_del_dia tp)"
proof -
  have us: "microsecond t div 1000000 = 0"
    using assms(2) by (simp add: datetime_valido_def)
  have r: "0 \<le> segundos_del_dia tp" "segundos_del_dia t < 86400"
    using assms(1,2) by (auto simp: datetime_valido_def segundos_del_dia_def)
  have m: "(segundos_del_dia t - segundos_del_dia tp) mod 86400
             = segundos_del_dia t - segundos_del_dia tp"
    using r assms(3) by simp
  have c: "segundos_del_dia (combine t \<lparr>t_hour = hour tp, t_minute = minute tp, t_second = second tp\<rparr>)
             = segundos_del_dia tp"
    by (simp add: segundos_del_dia_def combine_def)
  have o: "microsecond (combine t \<lparr>t_hour = hour tp, t_minute = minute tp, t_second = second tp\<rparr>) = 0"
    by (simp add: combine_def)
  have "seconds (restar t (combine t \<lparr>t_hour = hour tp, t_minute = minute tp, t_second = second tp\<rparr>))
          = segundos_del_dia t - segundos_del_dia tp"
    by (simp add: restar_def mk_timedelta_def Let_def c o us m)
  then show ?thesis
    by (simp add: diff_segundos_def assms(4) strptime_strftime[OF assms(1)])
qed

lemma ultimo_de_rev:
  "(case rev xs of [] \<Rightarrow> None | x # _ \<Rightarrow> Some (g x)) =
     (if xs = [] then None else Some (g (last xs)))"
  by (induction xs rule: rev_induct) simp_all

lemma historial_remoto:
  assumes "enabled w" "\<not> remoto_falla w"
    and "sorted (map a_hora (filter (\<lambda>row. a_persona_nombre row = nombre \<and> a_fecha row = f)
                               (tabla_asistencias w)))"
  shows "obtener (obtener_asistencia_fecha w f) nombre [] =
           map (\<lambda>row. \<lparr>r_tipo = a_tipo row, r_hora = a_hora row\<rparr>)
             (filter (\<lambda>row. a_persona_nombre row = nombre \<and> a_fecha row = f) (tabla_asistencias w))"
    and "obtener_ultimo_registro w nombre f =
           (case rev (filter (\<lambda>row. a_persona_nombre row = nombre \<and> a_fecha row = f)
                        (tabla_asistencias w)) of
              [] \<Rightarrow> None
            | row # _ \<Rightarrow> Some \<lparr>r_tipo = a_tipo row, r_hora = a_hora row\<rparr>)"
proof -
  let ?F = "filter (\<lambda>row. a_persona_nombre row = nombre \<and> a_fecha row = f) (tabla_asistencias w)"
  have s: "sort_key a_hora ?F = ?F"
    using assms(3) by (rule sort_key_id_if_sorted)
  have "filter (\<lambda>row. a_persona_nombre row = nombre)
          (sort_key a_hora (filter (\<lambda>row. a_fecha row = f) (tabla_asistencias w)))
        = sort_key a_hora ?F"
    by (simp add: filter_sort conj_commute)
  then show "obtener (obtener_asistencia_fecha w f) nombre [] =
           map (\<lambda>row. \<lparr>r_tipo = a_tipo row, r_hora = a_hora row\<rparr>) ?F"
    using assms(1,2) s
    by (simp add: obtener_asistencia_fecha_def obtener_asistencia_por_fecha_def
        obtener_group_by_person)
  show "obtener_ultimo_registro w nombre f =
           (case rev ?F of [] \<Rightarrow> None
            | row # _ \<Rightarrow> Some \<lparr>r_tipo = a_tipo row, r_hora = a_hora row\<rparr>)"
    using assms(1,2) s by (simp add: obtener_ultimo_registro_def)
qed

text \<open>The prior event the policy check uses is the last one of today's list.\<close>

lemma verificar_usa_el_ultimo:
  assumes "enabled w \<longrightarrow> \<not> remoto_falla w \<and>
             sorted (map a_hora (filter (\<lambda>row. a_persona_nombre row = nombre \<and>
                                               a_fecha row = strftime_fecha t)
                                   (tabla_asistencias w)))"
    and "obtener (obtener_asistencia_fecha w (strftime_fecha t)) nombre [] = h"
  shows "verificar_puede_registrar w nombre te t =
           evaluar_registro nombre (if h = [] then None else Some (last h)) te t t"
proof (cases "enabled w")
  case False
  with assms(2) show ?thesis
    by (simp add: verificar_puede_registrar_def obtener_asistencia_hoy_def
        obtener_asistencia_fecha_def)
next
  case True
  let ?F = "filter (\<lambda>row. a_persona_nombre row = nombre \<and> a_fecha row = strftime_fecha t)
              (tabla_asistencias w)"
  from True assms(1) have a: "\<not> remoto_falla w" "sorted (map a_hora ?F)"
    by simp_all
  have h: "h = map (\<lambda>row. \<lparr>r_tipo = a_tipo row, r_hora = a_hora row\<rparr>) ?F"
    using historial_remoto(1)[OF True a] assms(2) by simp
  have "obtener_ultimo_registro w nombre (strftime_fecha t) =
          (if h = [] then None else Some (last h))"
    unfolding historial_remoto(2)[OF True a] ultimo_de_rev h
    by (simp add: last_map)
  then show ?thesis
    using True by (simp add: verificar_puede_registrar_def)
qed

subsection \<open>One recorded attempt\<close>

lemma verificar_permite:
  assumes inv: "remoto_en_orden w nombre (strftime_fecha t)"
    and H: "obtener (obtener_asistencia_fecha w (strftime_fecha t)) nombre [] = h"
    and t: "datetime_valido t"
    and prev: "h \<noteq> [] \<longrightarrow> (\<exists>tp. datetime_valido tp \<and> r_hora (last h) = strftime_hora tp \<and>
                  segundos_del_dia tp + 10 \<le> segundos_del_dia t)"
  shows "verificar_puede_registrar w nombre 10 t = Inr (True, Some (tipo_siguiente h))"
proof -
  have v: "verificar_puede_registrar w nombre 10 t =
             evaluar_registro nombre (if h = [] then None else Some (last h)) 10 t t"
    using inv H unfolding remoto_en_orden_def by (rule verificar_usa_el_ultimo)
  show ?thesis
  proof (cases "h = []")
    case True
    then show ?thesis
      by (simp add: v evaluar_registro_def tipo_siguiente_def)
  next
    case False
    with prev obtain tp where tp: "datetime_valido tp" "r_hora (last h) = strftime_hora tp"
      "segundos_del_dia tp + 10 \<le> segundos_del_dia t"
      by blast
    have "diff_segundos (last h) t t = Inr (segundos_del_dia t - segundos_del_dia tp)"
      using tp t by (intro diff_segundos_separado) simp_all
    then show ?thesis
      using False tp(3) by (simp add: v evaluar_registro_def tipo_siguiente_def)
  qed
qed

lemma api_un_rostro:
  assumes "map_of rostro ''nombre'' = Some (VStr nombre)" "nombre \<noteq> []" "nombre \<noteq> ''Desconocido''"
    and "verificar_puede_registrar w nombre 10 t = Inr (True, Some tipo)"
  shows "snd (api_registrar_asistencia w [rostro] t) = snd (registrar_asistencia w nombre tipo t)"
  using assms
  by (simp add: api_registrar_asistencia_def split: prod.splits sum.splits)

lemma en_lista_no_vacia: "x \<in> set xs \<Longrightarrow> xs \<noteq> []"
  by auto

lemma sorted_le_last:
  assumes "sorted xs" "x \<in> set xs"
  shows "x \<le> last (xs :: 'a :: linorder list)"
proof -
  from assms(2) have "xs \<noteq> []" by auto
  then have "xs = butlast xs @ [last xs]" by simp
  then have "sorted (butlast xs @ [last xs])" "x \<in> set (butlast xs @ [last xs])"
    using assms by simp_all
  then show ?thesis
    by (auto simp: sorted_append)
qed

lemma paso_registra:
  assumes inv: "remoto_en_orden w nombre (strftime_fecha t)"
    and H: "obtener (obtener_asistencia_fecha w (strftime_fecha t)) nombre [] = h"
    and rostro: "map_of rostro ''nombre'' = Some (VStr nombre)" "nombre \<noteq> []"
      "nombre \<noteq> ''Desconocido''"
    and t: "datetime_valido t"
    and prev: "h \<noteq> [] \<longrightarrow> (\<exists>tp. datetime_valido tp \<and> r_hora (last h) = strftime_hora tp \<and>
                  segundos_del_dia tp + 10 \<le> segundos_del_dia t)"
  shows "remoto_en_orden (snd (api_registrar_asistencia w [rostro] t)) nombre (strftime_fecha t) \<and>
         obtener (obtener_asistencia_fecha (snd (api_registrar_asistencia w [rostro] t))
                    (strftime_fecha t)) nombre []
           = h @ [\<lparr>r_tipo = tipo_siguiente h, r_hora = strftime_hora t\<rparr>]"
proof -
  define f where "f = strftime_fecha t"
  define sig where "sig = tipo_siguiente h"
  define w' where "w' = snd (registrar_asistencia w nombre sig t)"
  have api: "snd (api_registrar_asistencia w [rostro] t) = w'"
    unfolding w'_def sig_def
    using rostro verificar_permite[OF inv H t prev] by (rule api_un_rostro)
  have "remoto_en_orden w' nombre f \<and>
        obtener (obtener_asistencia_fecha w' f) nombre []
          = h @ [\<lparr>r_tipo = sig, r_hora = strftime_hora t\<rparr>]"
  proof (cases "enabled w")
    case False
    have e: "\<not> enabled w'"
      using False
      by (simp add: w'_def registrar_asistencia_def registrar_local_def
          guardar_asistencia_local_def Let_def split: fallo_disco.splits)
    have c: "asistencia_cache w' =
        AList.update f
          (AList.update nombre
             (obtener (obtener (asistencia_cache w) f []) nombre []
                @ [\<lparr>r_tipo = sig, r_hora = strftime_hora t\<rparr>])
             (obtener (asistencia_cache w) f []))
          (asistencia_cache w)"
      using False
      by (simp add: w'_def f_def registrar_asistencia_def registrar_local_def
          guardar_asistencia_local_def Let_def split: fallo_disco.splits)
    have "obtener (obtener (asistencia_cache w) f []) nombre [] = h"
      using H False by (simp add: obtener_asistencia_fecha_def f_def)
    then show ?thesis
      using e by (simp add: remoto_en_orden_def obtener_asistencia_fecha_def c obtener_update)
  next
    case True
    define P where "P = (\<lambda>row :: fila_asistencia. a_persona_nombre row = nombre \<and> a_fecha row = f)"
    define F where "F = filter P (tabla_asistencias w)"
    define row where
      "row = \<lparr>a_persona_nombre = nombre, a_tipo = sig, a_fecha = f, a_hora = strftime_hora t\<rparr>"
    from True inv have a: "\<not> remoto_falla w" "sorted (map a_hora F)"
      by (simp_all add: remoto_en_orden_def F_def P_def f_def)
    have h: "map (\<lambda>row. \<lparr>r_tipo = a_tipo row, r_hora = a_hora row\<rparr>) F = h"
      using historial_remoto(1)[OF True a[unfolded F_def P_def]] H
      by (simp add: F_def P_def f_def)
    have m: "w' = w\<lparr>tabla_asistencias := tabla_asistencias w @ [row]\<rparr>"
      using True a(1)
      by (simp add: w'_def row_def f_def registrar_asistencia_def guardar_asistencia_def Let_def)
    have F': "filter P (tabla_asistencias w') = F @ [row]"
      by (simp add: m F_def) (simp add: P_def row_def)
    have le: "a_hora x \<le> strftime_hora t" if "x \<in> set F" for x
    proof -
      from that have ne: "F \<noteq> []" by (rule en_lista_no_vacia)
      then have "h \<noteq> []" using h by auto
      with prev obtain tp where tp: "datetime_valido tp" "r_hora (last h) = strftime_hora tp"
        "segundos_del_dia tp + 10 \<le> segundos_del_dia t"
        by blast
      have "r_hora (last h) = a_hora (last F)"
        using ne by (simp add: h[symmetric] last_map)
      then have "a_hora (last F) = strftime_hora tp"
        using tp(2) by simp
      moreover have "strftime_hora tp \<le> strftime_hora t"
        using tp(1) t tp(3) by (intro strftime_hora_mono) simp_all
      moreover have "a_hora x \<le> last (map a_hora F)"
        using a(2) that by (intro sorted_le_last) simp_all
      ultimately show ?thesis
        using ne by (simp add: last_map)
    qed
    have s: "sorted (map a_hora (filter P (tabla_asistencias w')))"
      unfolding F' using a(2) le by (auto simp: sorted_append row_def)
    have en: "enabled w'" "\<not> remoto_falla w'"
      using True a(1) by (simp_all add: m)
    have "obtener (obtener_asistencia_fecha w' f) nombre []
            = map (\<lambda>row. \<lparr>r_tipo = a_tipo row, r_hora = a_hora row\<rparr>)
                (filter P (tabla_asistencias w'))"
      unfolding P_def using en s[unfolded P_def] by (rule historial_remoto(1))
    also have "\<dots> = h @ [\<lparr>r_tipo = sig, r_hora = strftime_hora t\<rparr>]"
      unfolding F' by (simp add: h) (simp add: row_def)
    finally have "obtener (obtener_asistencia_fecha w' f) nombre []
                    = h @ [\<lparr>r_tipo = sig, r_hora = strftime_hora t\<rparr>]" .
    moreover have "remoto_en_orden w' nombre f"
      using en s by (simp add: remoto_en_orden_def P_def)
    ultimately show ?thesis by simp
  qed
  then show ?thesis
    by (simp only: api f_def sig_def)
qed

subsection \<open>Runs of attempts\<close>

lemma alternancia_Suc:
  "alternancia (Suc n) = alternancia n @ [if even n then ''entrada'' else ''salida'']"
  by (simp add: alternancia_def)

lemma tipo_siguiente_alterna:
  assumes "map r_tipo h = alternancia (length h)"
  shows "tipo_siguiente h = (if even (length h) then ''entrada'' else ''salida'')"
proof (cases h rule: rev_cases)
  case Nil
  then show ?thesis by (simp add: tipo_siguiente_def)
next
  case (snoc h' r)
  with assms have "r_tipo r = (if even (length h') then ''entrada'' else ''salida'')"
    by (simp add: alternancia_Suc)
  with snoc show ?thesis
    by (simp add: tipo_siguiente_def)
qed

lemma historial_vacio_en_orden:
  assumes "enabled w \<longrightarrow> \<not> remoto_falla w"
    and "obtener (obtener_asistencia_fecha w f) nombre [] = []"
  shows "remoto_en_orden w nombre f"
proof (cases "enabled w")
  case False
  then show ?thesis by (simp add: remoto_en_orden_def)
next
  case True
  with assms(1) have nf: "\<not> remoto_falla w" by simp
  have "filter (\<lambda>row. a_persona_nombre row = nombre)
          (sort_key a_hora (filter (\<lambda>row. a_fecha row = f) (tabla_asistencias w))) = []"
    using assms(2) True nf
    by (simp add: obtener_asistencia_fecha_def obtener_asistencia_por_fecha_def
        obtener_group_by_person)
  then have "filter (\<lambda>row. a_persona_nombre row = nombre \<and> a_fecha row = f)
               (tabla_asistencias w) = []"
    by (auto simp: filter_empty_conv)
  then show ?thesis
    using nf by (simp add: remoto_en_orden_def)
qed

lemma intentos_alternan:
  assumes rostro: "map_of rostro ''nombre'' = Some (VStr nombre)" "nombre \<noteq> []"
      "nombre \<noteq> ''Desconocido''"
    and ts: "\<forall>t \<in> set ts. datetime_valido t \<and> strftime_fecha t = f"
    and sep: "separados 10 ts"
    and inv: "remoto_en_orden w nombre f"
    and H: "obtener (obtener_asistencia_fecha w f) nombre [] = h"
    and alt: "map r_tipo h = alternancia (length h)"
    and prev: "h \<noteq> [] \<and> ts \<noteq> [] \<longrightarrow>
                 (\<exists>tp. datetime_valido tp \<and> r_hora (last h) = strftime_hora tp \<and>
                       segundos_del_dia tp + 10 \<le> segundos_del_dia (hd ts))"
  shows "map r_tipo (obtener (obtener_asistencia_fecha (intentos w rostro ts) f) nombre [])
           = alternancia (length h + length ts) \<and>
         map r_hora (obtener (obtener_asistencia_fecha (intentos w rostro ts) f) nombre [])
           = map r_hora h @ map strftime_hora ts"
  using ts sep inv H alt prev
proof (induction ts arbitrary: w h)
  case Nil
  then show ?case by simp
next
  case (Cons t ts)
  define w1 where "w1 = snd (api_registrar_asistencia w [rostro] t)"
  define h1 where "h1 = h @ [\<lparr>r_tipo = tipo_siguiente h, r_hora = strftime_hora t\<rparr>]"
  from Cons.prems(1) have t: "datetime_valido t" "strftime_fecha t = f"
    and ts: "\<forall>t \<in> set ts. datetime_valido t \<and> strftime_fecha t = f"
    by simp_all
  have p: "h \<noteq> [] \<longrightarrow> (\<exists>tp. datetime_valido tp \<and> r_hora (last h) = strftime_hora tp \<and>
                  segundos_del_dia tp + 10 \<le> segundos_del_dia t)"
    using Cons.prems(6) by simp
  have step: "remoto_en_orden w1 nombre f \<and> obtener (obtener_asistencia_fecha w1 f) nombre [] = h1"
    unfolding w1_def h1_def
    using paso_registra[OF _ _ rostro t(1) p, of w] Cons.prems(3,4) t(2) by simp
  have sep': "separados 10 ts"
    using Cons.prems(2) by (cases ts) simp_all
  have alt': "map r_tipo h1 = alternancia (length h1)"
    using Cons.prems(5) tipo_siguiente_alterna[OF Cons.prems(5)]
    by (simp add: h1_def alternancia_Suc)
  have prev': "h1 \<noteq> [] \<and> ts \<noteq> [] \<longrightarrow>
                 (\<exists>tp. datetime_valido tp \<and> r_hora (last h1) = strftime_hora tp \<and>
                       segundos_del_dia tp + 10 \<le> segundos_del_dia (hd ts))"
  proof (cases ts)
    case Nil
    then show ?thesis by simp
  next
    case (Cons t2 ts2)
    with Cons.prems(2) have "segundos_del_dia t + 10 \<le> segundos_del_dia t2"
      by simp
    with t(1) Cons show ?thesis
      by (auto simp: h1_def)
  qed
  from Cons.IH[OF ts sep' conjunct1[OF step] conjunct2[OF step] alt' prev']
  show ?case
    by (simp add: w1_def[symmetric]) (simp add: h1_def)
qed

text \<open>
  C3. When a prior event exists and the elapsed seconds are at least the interval,
  \<open>_evaluar_registro\<close> allows the record with the opposite of the prior event's type:
  \<open>salida\<close> after \<open>entrada\<close>, \<open>entrada\<close> after \<open>salida\<close>. Consequently, for a person
  with no event on a day and any run of requests on that day showing the person's face,
  each at least 10 seconds (the endpoint's interval) after the one before, every request
  is recorded and the types of the person's events that day are
  \<open>entrada, salida, entrada, ...\<close>, at the times of the requests. This holds on local
  storage and on a hosted store whose client answers.
\<close>

theorem eventos_alternan:
  "(diff_segundos u hora_actual hoy = Inr d \<and> tiempo_espera \<le> d \<longrightarrow>
      evaluar_registro nombre (Some u) tiempo_espera hora_actual hoy =
        Inr (True, Some (if r_tipo u = ''entrada'' then ''salida'' else ''entrada'')) \<and>
      (r_tipo u = ''salida'' \<longrightarrow>
         evaluar_registro nombre (Some u) tiempo_espera hora_actual hoy
           = Inr (True, Some ''entrada''))) \<and>
   ((enabled w \<longrightarrow> \<not> remoto_falla w) \<and>
    map_of rostro ''nombre'' = Some (VStr persona) \<and> persona \<noteq> [] \<and>
    persona \<noteq> ''Desconocido'' \<and>
    (\<forall>t \<in> set ts. datetime_valido t \<and> strftime_fecha t = fecha) \<and>
    separados 10 ts \<and>
    obtener_asistencia_persona w persona (Some fecha) t0 = [] \<longrightarrow>
      map r_tipo (obtener_asistencia_persona (intentos w rostro ts) persona (Some fecha) t0)
        = alternancia (length ts) \<and>
      map r_hora (obtener_asistencia_persona (intentos w rostro ts) persona (Some fecha) t0)
        = map strftime_hora ts)"
proof -
  have a: "evaluar_registro nombre (Some u) tiempo_espera hora_actual hoy =
        Inr (True, Some (if r_tipo u = ''entrada'' then ''salida'' else ''entrada''))"
    if "diff_segundos u hora_actual hoy = Inr d" "tiempo_espera \<le> d"
    using that by (simp add: evaluar_registro_def)
  have b: "map r_tipo (obtener_asistencia_persona (intentos w rostro ts) persona (Some fecha) t0)
        = alternancia (length ts) \<and>
      map r_hora (obtener_asistencia_persona (intentos w rostro ts) persona (Some fecha) t0)
        = map strftime_hora ts"
    if m: "enabled w \<longrightarrow> \<not> remoto_falla w"
      and r: "map_of rostro ''nombre'' = Some (VStr persona)" "persona \<noteq> []"
        "persona \<noteq> ''Desconocido''"
      and v: "\<forall>t \<in> set ts. datetime_valido t \<and> strftime_fecha t = fecha"
      and s: "separados 10 ts"
      and e: "obtener_asistencia_persona w persona (Some fecha) t0 = []"
  proof (cases ts)
    case Nil
    with e show ?thesis
      by (simp add: alternancia_def)
  next
    case (Cons t1 ts1)
    with v have "strftime_fecha t1 = fecha" by simp
    then have ne: "fecha \<noteq> []"
      by (auto simp: strftime_fecha_def cuatro_digitos_def dos_digitos_def)
    then have o: "obtener_asistencia_persona w' persona (Some fecha) t0
                    = obtener (obtener_asistencia_fecha w' fecha) persona []" for w'
      by (simp add: obtener_asistencia_persona_def)
    from e have h: "obtener (obtener_asistencia_fecha w fecha) persona [] = []"
      by (simp only: o)
    have i: "remoto_en_orden w persona fecha"
      using m h by (rule historial_vacio_en_orden)
    have "map r_tipo [] = alternancia (length ([] :: registro list))"
      by (simp add: alternancia_def)
    from intentos_alternan[OF r v s i h this] show ?thesis
      by (simp add: o)
  qed
  have a': "evaluar_registro nombre (Some u) tiempo_espera hora_actual hoy
              = Inr (True, Some ''entrada'')"
    if "diff_segundos u hora_actual hoy = Inr d \<and> tiempo_espera \<le> d" "r_tipo u = ''salida''"
    using that a by simp
  show ?thesis
  proof (intro conjI impI)
    assume "diff_segundos u hora_actual hoy = Inr d \<and> tiempo_espera \<le> d"
    then show "evaluar_registro nombre (Some u) tiempo_espera hora_actual hoy =
        Inr (True, Some (if r_tipo u = ''entrada'' then ''salida'' else ''entrada''))"
      using a by blast
  next
    assume "diff_segundos u hora_actual hoy = Inr d \<and> tiempo_espera \<le> d"
      and "r_tipo u = ''salida''"
    then show "evaluar_registro nombre (Some u) tiempo_espera hora_actual hoy
                 = Inr (True, Some ''entrada'')"
      by (rule a')
  next
    assume p: "(enabled w \<longrightarrow> \<not> remoto_falla w) \<and>
      map_of rostro ''nombre'' = Some (VStr persona) \<and> persona \<noteq> [] \<and>
      persona \<noteq> ''Desconocido'' \<and>
      (\<forall>t \<in> set ts. datetime_valido t \<and> strftime_fecha t = fecha) \<and>
      separados 10 ts \<and>
      obtener_asistencia_persona w persona (Some fecha) t0 = []"
    then have "map r_tipo (obtener_asistencia_persona (intentos w rostro ts) persona (Some fecha) t0)
        = alternancia (length ts) \<and>
      map r_hora (obtener_asistencia_persona (intentos w rostro ts) persona (Some fecha) t0)
        = map strftime_hora ts"
      by (intro b) (elim conjE, assumption)+
    then show "map r_tipo (obtener_asistencia_persona (intentos w rostro ts) persona (Some fecha) t0)
        = alternancia (length ts)"
      and "map r_hora (obtener_asistencia_persona (intentos w rostro ts) persona (Some fecha) t0)
        = map strftime_hora ts"
      by simp_all
  qed
qed

text \<open>The scenario of the specification, continued: 09:00:00, 09:00:15, 09:00:40.\<close>

theorem eventos_alternan_witness:
  "diff_segundos entrada_ana (dia_ejemplo 9 0 15) (dia_ejemplo 9 0 15) = Inr 15 \<and>
   evaluar_registro ''Ana'' (Some entrada_ana) 10 (dia_ejemplo 9 0 15) (dia_ejemplo 9 0 15)
     = Inr (True, Some ''salida'') \<and>
   separados 10 [dia_ejemplo 9 0 0, dia_ejemplo 9 0 15, dia_ejemplo 9 0 40] \<and>
   obtener_asistencia_persona mundo_local ''Ana'' (Some ''2024-03-09'') (dia_ejemplo 9 0 0) = [] \<and>
   map r_tipo (obtener_asistencia_persona
      (intentos mundo_local rostro_ana [dia_ejemplo 9 0 0, dia_ejemplo 9 0 15, dia_ejemplo 9 0 40])
      ''Ana'' (Some ''2024-03-09'') (dia_ejemplo 9 0 0))
     = [''entrada'', ''salida'', ''entrada'']"
proof -
  have h1: "diff_segundos entrada_ana (dia_ejemplo 9 0 15) (dia_ejemplo 9 0 15) = Inr 15"
    by code_simp
  have h2: "(10::int) \<le> 15"
    by simp
  have h3: "r_tipo entrada_ana = ''entrada''"
    by code_simp
  have h4: "enabled mundo_local \<longrightarrow> \<not> remoto_falla mundo_local"
    by code_simp
  have h5: "map_of rostro_ana ''nombre'' = Some (VStr ''Ana'') \<and> ''Ana'' \<noteq> [] \<and>
            ''Ana'' \<noteq> ''Desconocido''"
    by code_simp
  have h6: "\<forall>t \<in> set [dia_ejemplo 9 0 0, dia_ejemplo 9 0 15, dia_ejemplo 9 0 40].
              datetime_valido t \<and> strftime_fecha t = ''2024-03-09''"
    by code_simp
  have h7: "separados 10 [dia_ejemplo 9 0 0, dia_ejemplo 9 0 15, dia_ejemplo 9 0 40]"
    by code_simp
  have h8: "obtener_asistencia_persona mundo_local ''Ana'' (Some ''2024-03-09'')
              (dia_ejemplo 9 0 0) = []"
    by code_simp
  have h9: "alternancia (length [dia_ejemplo 9 0 0, dia_ejemplo 9 0 15, dia_ejemplo 9 0 40])
              = [''entrada'', ''salida'', ''entrada'']"
    by code_simp
  from eventos_alternan[of entrada_ana "dia_ejemplo 9 0 15" "dia_ejemplo 9 0 15" 15 10 "''Ana''"
      mundo_local rostro_ana "''Ana''"
      "[dia_ejemplo 9 0 0, dia_ejemplo 9 0 15, dia_ejemplo 9 0 40]" "''2024-03-09''"
      "dia_ejemplo 9 0 0"]
    h1 h2 h3 h4 h5 h6 h7 h8 h9
  show ?thesis by simp
qed

section \<open>Properties of the matcher\<close>

lemma candidatos_Cons:
  "candidatos ((n, datos) # resto) emb =
     (case p_embedding datos of
        None \<Rightarrow> []
      | Some registrado \<Rightarrow>
          if registrado = [] then [] else [(n, sum_list (map2 (*) emb registrado))])
     @ candidatos resto emb"
  by (simp add: candidatos_def)

lemma reconocer_bucle_mejor:
  assumes "\<forall>(n, datos) \<in> set personas. \<forall>registrado.
             p_embedding datos = Some registrado \<and> registrado \<noteq> [] \<longrightarrow>
               length registrado = length emb"
  shows "\<exists>mm ms. reconocer_bucle personas emb m0 s0 = Inr (mm, ms) \<and>
      ((mm = m0 \<and> ms = s0 \<and> (\<forall>c \<in> set (candidatos personas emb). snd c \<le> s0)) \<or>
       (\<exists>n pre post. candidatos personas emb = pre @ (n, ms) # post \<and> mm = Some n \<and> s0 < ms \<and>
           (\<forall>c \<in> set pre. snd c < ms) \<and> (\<forall>c \<in> set post. snd c \<le> ms)))"
  using assms
proof (induction personas arbitrary: m0 s0)
  case Nil
  then show ?case by (simp add: candidatos_def)
next
  case (Cons p resto)
  obtain nombre datos where p: "p = (nombre, datos)" by (cases p)
  from Cons.prems have rest: "\<forall>(n, datos) \<in> set resto. \<forall>registrado.
             p_embedding datos = Some registrado \<and> registrado \<noteq> [] \<longrightarrow>
               length registrado = length emb"
    by simp
  note IH = Cons.IH[OF rest]
  show ?case
  proof (cases "\<exists>registrado. p_embedding datos = Some registrado \<and> registrado \<noteq> []")
    case False
    then have c: "candidatos (p # resto) emb = candidatos resto emb"
      by (auto simp: p candidatos_Cons split: option.splits)
    from False have b: "reconocer_bucle (p # resto) emb m0 s0 = reconocer_bucle resto emb m0 s0"
      by (auto simp: p split: option.splits)
    show ?thesis
      unfolding c b by (rule IH)
  next
    case True
    then obtain registrado where r: "p_embedding datos = Some registrado" "registrado \<noteq> []"
      by blast
    with Cons.prems have len: "length registrado = length emb"
      by (simp add: p)
    define sim where "sim = sum_list (map2 (*) emb registrado)"
    have c: "candidatos (p # resto) emb = (nombre, sim) # candidatos resto emb"
      using r by (simp add: p candidatos_Cons sim_def)
    have dot: "np_dot emb registrado = Inr sim"
      using len by (simp add: np_dot_def sim_def)
    have paso: "reconocer_bucle (p # resto) emb m0 s0 =
        (if sim > s0 then reconocer_bucle resto emb (Some nombre) sim
         else reconocer_bucle resto emb m0 s0)"
      using r(2) by (simp add: p r(1) dot)
    show ?thesis
    proof (cases "sim > s0")
      case True
      have b: "reconocer_bucle (p # resto) emb m0 s0 = reconocer_bucle resto emb (Some nombre) sim"
        using True by (simp add: paso)
      from IH[of "Some nombre" sim] obtain mm ms where
        res: "reconocer_bucle resto emb (Some nombre) sim = Inr (mm, ms)"
        and alt: "(mm = Some nombre \<and> ms = sim \<and> (\<forall>c \<in> set (candidatos resto emb). snd c \<le> sim)) \<or>
          (\<exists>n pre post. candidatos resto emb = pre @ (n, ms) # post \<and> mm = Some n \<and> sim < ms \<and>
             (\<forall>c \<in> set pre. snd c < ms) \<and> (\<forall>c \<in> set post. snd c \<le> ms))"
        by blast
      from alt have "\<exists>n pre post. candidatos (p # resto) emb = pre @ (n, ms) # post \<and>
           mm = Some n \<and> s0 < ms \<and> (\<forall>c \<in> set pre. snd c < ms) \<and> (\<forall>c \<in> set post. snd c \<le> ms)"
      proof
        assume a: "mm = Some nombre \<and> ms = sim \<and> (\<forall>c \<in> set (candidatos resto emb). snd c \<le> sim)"
        then have "candidatos (p # resto) emb = [] @ (nombre, ms) # candidatos resto emb"
          by (simp add: c)
        with a True show ?thesis
          by (intro exI[of _ nombre] exI[of _ "[]"] exI[of _ "candidatos resto emb"]) simp
      next
        assume "\<exists>n pre post. candidatos resto emb = pre @ (n, ms) # post \<and> mm = Some n \<and> sim < ms \<and>
             (\<forall>c \<in> set pre. snd c < ms) \<and> (\<forall>c \<in> set post. snd c \<le> ms)"
        then obtain n pre post where a: "candidatos resto emb = pre @ (n, ms) # post" "mm = Some n"
          "sim < ms" "\<forall>c \<in> set pre. snd c < ms" "\<forall>c \<in> set post. snd c \<le> ms"
          by blast
        have "candidatos (p # resto) emb = ((nombre, sim) # pre) @ (n, ms) # post"
          by (simp add: c a(1))
        with a True show ?thesis
          by (intro exI[of _ n] exI[of _ "(nombre, sim) # pre"] exI[of _ post]) simp
      qed
      with res show ?thesis
        unfolding b by blast
    next
      case False
      have b: "reconocer_bucle (p # resto) emb m0 s0 = reconocer_bucle resto emb m0 s0"
        using False by (simp add: paso)
      from IH[of m0 s0] obtain mm ms where
        res: "reconocer_bucle resto emb m0 s0 = Inr (mm, ms)"
        and alt: "(mm = m0 \<and> ms = s0 \<and> (\<forall>c \<in> set (candidatos resto emb). snd c \<le> s0)) \<or>
          (\<exists>n pre post. candidatos resto emb = pre @ (n, ms) # post \<and> mm = Some n \<and> s0 < ms \<and>
             (\<forall>c \<in> set pre. snd c < ms) \<and> (\<forall>c \<in> set post. snd c \<le> ms))"
        by blast
      from alt have "(mm = m0 \<and> ms = s0 \<and> (\<forall>c \<in> set (candidatos (p # resto) emb). snd c \<le> s0)) \<or>
          (\<exists>n pre post. candidatos (p # resto) emb = pre @ (n, ms) # post \<and> mm = Some n \<and>
             s0 < ms \<and> (\<forall>c \<in> set pre. snd c < ms) \<and> (\<forall>c \<in> set post. snd c \<le> ms))"
      proof
        assume "mm = m0 \<and> ms = s0 \<and> (\<forall>c \<in> set (candidatos resto emb). snd c \<le> s0)"
        with False show ?thesis
          by (simp add: c)
      next
        assume "\<exists>n pre post. candidatos resto emb = pre @ (n, ms) # post \<and> mm = Some n \<and> s0 < ms \<and>
             (\<forall>c \<in> set pre. snd c < ms) \<and> (\<forall>c \<in> set post. snd c \<le> ms)"
        then obtain n pre post where a: "candidatos resto emb = pre @ (n, ms) # post" "mm = Some n"
          "s0 < ms" "\<forall>c \<in> set pre. snd c < ms" "\<forall>c \<in> set post. snd c \<le> ms"
          by blast
        have "candidatos (p # resto) emb = ((nombre, sim) # pre) @ (n, ms) # post"
          by (simp add: c a(1))
        moreover have "sim < ms"
          using False a(3) by simp
        ultimately have "\<exists>n pre post. candidatos (p # resto) emb = pre @ (n, ms) # post \<and>
             mm = Some n \<and> s0 < ms \<and> (\<forall>c \<in> set pre. snd c < ms) \<and> (\<forall>c \<in> set post. snd c \<le> ms)"
          using a by (intro exI[of _ n] exI[of _ "(nombre, sim) # pre"] exI[of _ post]) simp
        then show ?thesis ..
      qed
      with res show ?thesis
        unfolding b by blast
    qed
  qed
qed

text \<open>
  C4. For every query embedding and every identity store whose usable embeddings have the
  query's length, and every positive threshold (the default is 0.4, the only one the
  service uses), \<open>_reconocer_persona\<close> returns, when some stored embedding has a dot
  product with the query of at least the threshold, the name with the maximum dot
  product and that similarity, the first such entry in the store's iteration order
  (every entry before it has a strictly smaller similarity, every entry after it a
  smaller or equal one); otherwise, every similarity being below the threshold, it
  returns no name with similarity exactly 0.
\<close>

theorem reconocer_persona_mejor:
  assumes "0 < umbral"
    and "\<forall>(n, datos) \<in> set personas. \<forall>registrado.
             p_embedding datos = Some registrado \<and> registrado \<noteq> [] \<longrightarrow>
               length registrado = length emb"
  shows "(\<exists>n s pre post. candidatos personas emb = pre @ (n, s) # post \<and>
            (\<forall>c \<in> set pre. snd c < s) \<and> (\<forall>c \<in> set post. snd c \<le> s) \<and> umbral \<le> s \<and>
            reconocer_persona personas emb umbral = Inr (Some n, s)) \<or>
         ((\<forall>c \<in> set (candidatos personas emb). snd c < umbral) \<and>
            reconocer_persona personas emb umbral = Inr (None, 0))"
proof -
  from reconocer_bucle_mejor[OF assms(2), of None 0] obtain mm ms where
    res: "reconocer_bucle personas emb None 0 = Inr (mm, ms)"
    and alt: "(mm = None \<and> ms = 0 \<and> (\<forall>c \<in> set (candidatos personas emb). snd c \<le> 0)) \<or>
       (\<exists>n pre post. candidatos personas emb = pre @ (n, ms) # post \<and> mm = Some n \<and> 0 < ms \<and>
           (\<forall>c \<in> set pre. snd c < ms) \<and> (\<forall>c \<in> set post. snd c \<le> ms))"
    by blast
  from alt show ?thesis
  proof
    assume a: "mm = None \<and> ms = 0 \<and> (\<forall>c \<in> set (candidatos personas emb). snd c \<le> 0)"
    then have "\<forall>c \<in> set (candidatos personas emb). snd c < umbral"
      using assms(1) by fastforce
    moreover have "reconocer_persona personas emb umbral = Inr (None, 0)"
      using a assms(1) by (simp add: reconocer_persona_def res)
    ultimately show ?thesis by blast
  next
    assume "\<exists>n pre post. candidatos personas emb = pre @ (n, ms) # post \<and> mm = Some n \<and> 0 < ms \<and>
           (\<forall>c \<in> set pre. snd c < ms) \<and> (\<forall>c \<in> set post. snd c \<le> ms)"
    then obtain n pre post where a: "candidatos personas emb = pre @ (n, ms) # post" "mm = Some n"
      "0 < ms" "\<forall>c \<in> set pre. snd c < ms" "\<forall>c \<in> set post. snd c \<le> ms"
      by blast
    show ?thesis
    proof (cases "umbral \<le> ms")
      case True
      then have "reconocer_persona personas emb umbral = Inr (Some n, ms)"
        by (simp add: reconocer_persona_def res a(2))
      with a True show ?thesis by blast
    next
      case False
      then have r: "reconocer_persona personas emb umbral = Inr (None, 0)"
        by (simp add: reconocer_persona_def res)
      have "\<forall>c \<in> set (candidatos personas emb). snd c < umbral"
        using a(4,5) False by (fastforce simp: a(1))
      with r show ?thesis by blast
    qed
  qed
qed

text \<open>Bob and Eva tie at 0.8 above Ana's 0.6: Bob, seen first, is returned.\<close>

theorem reconocer_persona_mejor_witness:
  "candidatos personas_ejemplo [6/10, 8/10]
     = [(''Ana'', 6/10)] @ (''Bob'', 8/10) # [(''Eva'', 8/10)] \<and>
   umbral_defecto \<le> 8/10 \<and>
   reconocer_persona personas_ejemplo [6/10, 8/10] umbral_defecto = Inr (Some ''Bob'', 8/10) \<and>
   reconocer_persona personas_ejemplo [3/10, 2/10] umbral_defecto = Inr (None, 0)"
proof -
  have h1: "0 < umbral_defecto"
    by (simp add: umbral_defecto_def)
  have h2: "\<forall>(n, datos) \<in> set personas_ejemplo. \<forall>registrado.
             p_embedding datos = Some registrado \<and> registrado \<noteq> [] \<longrightarrow>
               length registrado = length [6/10, 8/10 :: real]"
    by (simp add: personas_ejemplo_def persona_con_def)
  have c: "candidatos personas_ejemplo [6/10, 8/10]
             = [(''Ana'', 6/10)] @ (''Bob'', 8/10) # [(''Eva'', 8/10)]"
    by (simp add: candidatos_def personas_ejemplo_def persona_con_def)
  have u: "umbral_defecto \<le> 8/10"
    by (simp add: umbral_defecto_def)
  have r1: "reconocer_persona personas_ejemplo [6/10, 8/10] umbral_defecto
              = Inr (Some ''Bob'', 8/10)"
    by (simp add: reconocer_persona_def personas_ejemplo_def persona_con_def np_dot_def
        umbral_defecto_def)
  have r2: "reconocer_persona personas_ejemplo [3/10, 2/10] umbral_defecto = Inr (None, 0)"
    by (simp add: reconocer_persona_def personas_ejemplo_def persona_con_def np_dot_def
        umbral_defecto_def)
  from reconocer_persona_mejor[OF h1 h2] c u r1 r2 show ?thesis
    by simp
qed

section \<open>Properties of the identity store\<close>

subsection \<open>Registration needs exactly one face\<close>

text \<open>
  C6. \<open>registrar_persona\<close> returns a failure (\<open>exito = False\<close> with its message) when no
  face or more than one face is detected, and leaves the whole state, the identity store
  included, unchanged. With exactly one face the identity store receives the person
  under the name, with the record built from that face, and the call returns
  \<open>exito = True\<close> with the new size of the store, unless the store is local and the write
  of its file raises; when the write succeeds the file holds the new store, and on a
  hosted store whose client answers the table receives the person's row. So, the write
  aside, it succeeds exactly when one face is detected.
\<close>

theorem registrar_persona_un_rostro:
  "(faces = [] \<longrightarrow>
      registrar_persona w nombre faces ahora foto =
        (Inr \<lparr>rp_exito = False, rp_mensaje = ''No se detecto ningun rostro en la imagen'',
               rp_total_registrados = None\<rparr>, w)) \<and>
   (length faces > 1 \<longrightarrow>
      registrar_persona w nombre faces ahora foto =
        (Inr \<lparr>rp_exito = False,
               rp_mensaje = ''Se detectaron multiples rostros. Usa una sola persona'',
               rp_total_registrados = None\<rparr>, w)) \<and>
   (length faces = 1 \<longrightarrow>
      fst (registrar_persona w nombre faces ahora foto) =
        (if \<not> enabled w \<and> disco_falla w \<noteq> SinFallo then Inl OSError
         else Inr \<lparr>rp_exito = True, rp_mensaje = nombre @ '' registrado correctamente'',
                   rp_total_registrados =
                     Some (length (AList.update nombre (persona_info_de (faces ! 0) ahora)
                                     (personas_registradas w)))\<rparr>) \<and>
      personas_registradas (snd (registrar_persona w nombre faces ahora foto)) =
        AList.update nombre (persona_info_de (faces ! 0) ahora) (personas_registradas w) \<and>
      map_of (personas_registradas (snd (registrar_persona w nombre faces ahora foto))) nombre =
        Some (persona_info_de (faces ! 0) ahora) \<and>
      (\<not> enabled w \<and> disco_falla w = SinFallo \<longrightarrow>
         archivo_personas (snd (registrar_persona w nombre faces ahora foto)) =
           Contenido (AList.update nombre (persona_info_de (faces ! 0) ahora)
                        (personas_registradas w))) \<and>
      (enabled w \<and> \<not> remoto_falla w \<longrightarrow>
         tabla_personas (snd (registrar_persona w nombre faces ahora foto)) =
           upsert_persona
             \<lparr>fp_nombre = nombre, fp_embedding = f_normed_embedding (faces ! 0),
              fp_edad = p_edad (persona_info_de (faces ! 0) ahora),
              fp_genero = p_genero (persona_info_de (faces ! 0) ahora),
              fp_fecha_registro = p_fecha_registro (persona_info_de (faces ! 0) ahora),
              fp_foto_url = (if foto = Some [] then None else foto)\<rparr>
             (tabla_personas w))) \<and>
   ((\<exists>r. fst (registrar_persona w nombre faces ahora foto) = Inr r \<and> rp_exito r) \<longleftrightarrow>
      length faces = 1 \<and> (enabled w \<or> disco_falla w = SinFallo))"
proof -
  consider "faces = []" | "length faces > 1" | "length faces = 1"
    by (cases faces) (auto simp: Suc_lessI)
  then show ?thesis
  proof cases
    case 1
    then show ?thesis by (simp add: registrar_persona_def)
  next
    case 2
    then have "faces \<noteq> []" by auto
    with 2 show ?thesis by (simp add: registrar_persona_def)
  next
    case 3
    then have ne: "faces \<noteq> []" "\<not> length faces > 1" by auto
    define info where "info = persona_info_de (faces ! 0) ahora"
    define w1 where
      "w1 = w\<lparr>personas_registradas := AList.update nombre info (personas_registradas w)\<rparr>"
    define exito where
      "exito = \<lparr>rp_exito = True, rp_mensaje = nombre @ '' registrado correctamente'',
                rp_total_registrados = Some (length (personas_registradas w1))\<rparr>"
    have r: "registrar_persona w nombre faces ahora foto =
        (if enabled w
         then (Inr exito,
               snd (guardar_persona w1 nombre (f_normed_embedding (faces ! 0)) (p_edad info)
                      (p_genero info) (strftime_fecha ahora @ '' '' @ strftime_hora ahora) foto))
         else (case guardar_personas_local w1 of
                 (Inl e, w2) \<Rightarrow> (Inl e, w2)
               | (Inr _, w2) \<Rightarrow> (Inr exito, w2)))"
      unfolding registrar_persona_def Let_def info_def w1_def exito_def
      using 3 by simp
    have f: "p_fecha_registro info = Some (strftime_fecha ahora @ '' '' @ strftime_hora ahora)"
      by (simp add: info_def persona_info_de_def)
    have m: "map_of (AList.update nombre info (personas_registradas w)) nombre = Some info"
      by (simp add: update_conv')
    show ?thesis
    proof (cases "enabled w")
      case True
      then have "enabled w1" by (simp add: w1_def)
      with True 3 ne m f show ?thesis
        unfolding r info_def[symmetric]
        by (simp add: guardar_persona_def subir_imagen_def Let_def w1_def exito_def)
    next
      case False
      with 3 ne m show ?thesis
        unfolding r info_def[symmetric]
        by (cases "disco_falla w")
          (simp_all add: guardar_personas_local_def w1_def exito_def)
    qed
  qed
qed

theorem registrar_persona_un_rostro_witness:
  "registrar_persona mundo_personas ''Zoe'' [] (dia_ejemplo 9 0 0) None =
     (Inr \<lparr>rp_exito = False, rp_mensaje = ''No se detecto ningun rostro en la imagen'',
            rp_total_registrados = None\<rparr>, mundo_personas) \<and>
   registrar_persona mundo_personas ''Zoe'' [cara [1, 0], cara [0, 1]] (dia_ejemplo 9 0 0) None =
     (Inr \<lparr>rp_exito = False,
            rp_mensaje = ''Se detectaron multiples rostros. Usa una sola persona'',
            rp_total_registrados = None\<rparr>, mundo_personas) \<and>
   fst (registrar_persona mundo_personas ''Zoe'' [cara [1, 0]] (dia_ejemplo 9 0 0) None) =
     Inr \<lparr>rp_exito = True, rp_mensaje = ''Zoe registrado correctamente'',
           rp_total_registrados = Some 4\<rparr> \<and>
   map fst (personas_registradas
      (snd (registrar_persona mundo_personas ''Zoe'' [cara [1, 0]] (dia_ejemplo 9 0 0) None)))
     = [''Ana'', ''Bob'', ''Eva'', ''Zoe''] \<and>
   map_of (personas_registradas
      (snd (registrar_persona mundo_personas ''Zoe'' [cara [1, 0]] (dia_ejemplo 9 0 0) None)))
      ''Zoe''
     = Some \<lparr>p_embedding = Some [1, 0], p_fecha_registro = Some ''2024-03-09 09:00:00'',
              p_edad = Some 31, p_genero = Some ''F'', p_foto_url = None\<rparr>"
proof -
  have f: "strftime_fecha (dia_ejemplo 9 0 0) = ''2024-03-09''"
    "strftime_hora (dia_ejemplo 9 0 0) = ''09:00:00''"
    by code_simp+
  have a: "registrar_persona mundo_personas ''Zoe'' [] (dia_ejemplo 9 0 0) None =
     (Inr \<lparr>rp_exito = False, rp_mensaje = ''No se detecto ningun rostro en la imagen'',
            rp_total_registrados = None\<rparr>, mundo_personas)"
    using registrar_persona_un_rostro[where faces = "[]" and w = mundo_personas
        and nombre = "''Zoe''" and ahora = "dia_ejemplo 9 0 0" and foto = None]
    by simp
  have b: "registrar_persona mundo_personas ''Zoe'' [cara [1, 0], cara [0, 1]]
             (dia_ejemplo 9 0 0) None =
     (Inr \<lparr>rp_exito = False,
            rp_mensaje = ''Se detectaron multiples rostros. Usa una sola persona'',
            rp_total_registrados = None\<rparr>, mundo_personas)"
    using registrar_persona_un_rostro[where faces = "[cara [1, 0], cara [0, 1]]"
        and w = mundo_personas and nombre = "''Zoe''" and ahora = "dia_ejemplo 9 0 0"
        and foto = None]
    by simp
  have l: "length [cara [1, 0]] = 1"
    by simp
  have en: "\<not> enabled mundo_personas" "disco_falla mundo_personas = SinFallo"
    by (simp_all add: mundo_personas_def mundo_local_def)
  have st: "AList.update ''Zoe'' x (personas_registradas mundo_personas)
              = personas_ejemplo @ [(''Zoe'', x)]" for x
    by (simp add: mundo_personas_def mundo_local_def personas_ejemplo_def)
  note t = registrar_persona_un_rostro[where faces = "[cara [1, 0]]" and w = mundo_personas
        and nombre = "''Zoe''" and ahora = "dia_ejemplo 9 0 0" and foto = None,
        THEN conjunct2, THEN conjunct2, THEN conjunct1, THEN mp, OF l]
  have c: "fst (registrar_persona mundo_personas ''Zoe'' [cara [1, 0]] (dia_ejemplo 9 0 0) None) =
     Inr \<lparr>rp_exito = True, rp_mensaje = ''Zoe registrado correctamente'',
           rp_total_registrados = Some 4\<rparr>"
    using t[THEN conjunct1] en by (simp add: st) (simp add: personas_ejemplo_def)
  have d: "map fst (personas_registradas
      (snd (registrar_persona mundo_personas ''Zoe'' [cara [1, 0]] (dia_ejemplo 9 0 0) None)))
     = [''Ana'', ''Bob'', ''Eva'', ''Zoe'']"
    using t[THEN conjunct2, THEN conjunct1] by (simp add: st) (simp add: personas_ejemplo_def)
  have i: "persona_info_de (cara [1, 0]) (dia_ejemplo 9 0 0)
     = \<lparr>p_embedding = Some [1, 0], p_fecha_registro = Some ''2024-03-09 09:00:00'',
        p_edad = Some 31, p_genero = Some ''F'', p_foto_url = None\<rparr>"
    by (simp add: persona_info_de_def cara_def f)
  have e: "map_of (personas_registradas
      (snd (registrar_persona mundo_personas ''Zoe'' [cara [1, 0]] (dia_ejemplo 9 0 0) None)))
      ''Zoe''
     = Some \<lparr>p_embedding = Some [1, 0], p_fecha_registro = Some ''2024-03-09 09:00:00'',
              p_edad = Some 31, p_genero = Some ''F'', p_foto_url = None\<rparr>"
    using t[THEN conjunct2, THEN conjunct2, THEN conjunct1] by (simp add: i)
  from a b c d e show ?thesis
    by simp
qed

subsection \<open>Registering, looking up, removing\<close>

text \<open>
  C7. After \<open>registrar_persona\<close> with one face, the store holds under the name exactly
  the embedding of that face and the metadata built from it, whatever it held under that
  name before (the last registration wins), and every other name is as before. After
  \<open>eliminar_persona\<close> the store holds nothing under the name, every other name is as
  before, and removing a name the store does not hold answers \<open>no encontrado\<close> and
  changes nothing.
\<close>

theorem registro_y_consulta:
  "(length faces = 1 \<longrightarrow>
      map_of (personas_registradas (snd (registrar_persona w nombre faces ahora foto))) nombre
        = Some (persona_info_de (faces ! 0) ahora) \<and>
      (n \<noteq> nombre \<longrightarrow>
         map_of (personas_registradas (snd (registrar_persona w nombre faces ahora foto))) n
           = map_of (personas_registradas w) n)) \<and>
   map_of (personas_registradas (snd (eliminar_persona w nombre))) nombre = None \<and>
   (n \<noteq> nombre \<longrightarrow>
      map_of (personas_registradas (snd (eliminar_persona w nombre))) n
        = map_of (personas_registradas w) n) \<and>
   (map_of (personas_registradas w) nombre = None \<longrightarrow>
      eliminar_persona w nombre =
        (Inr \<lparr>rp_exito = False, rp_mensaje = nombre @ '' no encontrado'',
               rp_total_registrados = None\<rparr>, w))"
proof -
  have k: "nombre \<notin> fst ` set (personas_registradas w) \<longleftrightarrow>
           map_of (personas_registradas w) nombre = None"
    by (simp add: map_of_eq_None_iff)
  have r: "personas_registradas (snd (registrar_persona w nombre faces ahora foto))
             = AList.update nombre (persona_info_de (faces ! 0) ahora) (personas_registradas w)"
    if "length faces = 1"
    using that
    by (simp add: registrar_persona_def guardar_personas_local_def guardar_persona_def Let_def
        split: fallo_disco.splits)
  have e: "personas_registradas (snd (eliminar_persona w nombre))
             = (if nombre \<in> fst ` set (personas_registradas w)
                then AList.delete nombre (personas_registradas w) else personas_registradas w)"
    by (simp add: eliminar_persona_def guardar_personas_local_def supabase_eliminar_persona_def
        Let_def split: fallo_disco.splits)
  have e1: "map_of (personas_registradas (snd (eliminar_persona w nombre))) nombre = None"
    unfolding e using k by (simp add: delete_conv')
  have e2: "map_of (personas_registradas (snd (eliminar_persona w nombre))) n
              = map_of (personas_registradas w) n" if "n \<noteq> nombre"
    unfolding e using that by (simp add: delete_conv')
  have e3: "eliminar_persona w nombre =
        (Inr \<lparr>rp_exito = False, rp_mensaje = nombre @ '' no encontrado'',
               rp_total_registrados = None\<rparr>, w)"
    if "map_of (personas_registradas w) nombre = None"
    using that k by (simp add: eliminar_persona_def)
  show ?thesis
    using r e1 e2 e3 by (simp add: update_conv')
qed

text \<open>Ana, registered with embedding (1, 0), is registered again with (0, 1), then removed.\<close>

theorem registro_y_consulta_witness:
  "map_of (personas_registradas mundo_personas) ''Ana'' = Some (persona_con [1, 0]) \<and>
   map_of (personas_registradas
      (snd (registrar_persona mundo_personas ''Ana'' [cara [0, 1]] (dia_ejemplo 9 0 0) None)))
      ''Ana''
     = Some \<lparr>p_embedding = Some [0, 1], p_fecha_registro = Some ''2024-03-09 09:00:00'',
              p_edad = Some 31, p_genero = Some ''F'', p_foto_url = None\<rparr> \<and>
   map_of (personas_registradas (snd (eliminar_persona mundo_personas ''Ana''))) ''Ana'' = None"
proof -
  have f: "strftime_fecha (dia_ejemplo 9 0 0) = ''2024-03-09''"
    "strftime_hora (dia_ejemplo 9 0 0) = ''09:00:00''"
    by code_simp+
  have a: "map_of (personas_registradas mundo_personas) ''Ana'' = Some (persona_con [1, 0])"
    by (simp add: mundo_personas_def mundo_local_def personas_ejemplo_def)
  note t = registro_y_consulta[where faces = "[cara [0, 1]]" and w = mundo_personas
      and nombre = "''Ana''" and ahora = "dia_ejemplo 9 0 0" and foto = None and n = "''Bob''"]
  have b: "map_of (personas_registradas
      (snd (registrar_persona mundo_personas ''Ana'' [cara [0, 1]] (dia_ejemplo 9 0 0) None)))
      ''Ana''
     = Some \<lparr>p_embedding = Some [0, 1], p_fecha_registro = Some ''2024-03-09 09:00:00'',
              p_edad = Some 31, p_genero = Some ''F'', p_foto_url = None\<rparr>"
    using t by (simp add: persona_info_de_def cara_def f)
  have c: "map_of (personas_registradas (snd (eliminar_persona mundo_personas ''Ana''))) ''Ana''
             = None"
    using t by simp
  from a b c show ?thesis
    by simp
qed

subsection \<open>What the listings show\<close>

lemma claves_detectar_bucle:
  assumes "detectar_bucle w faces resultados = Inr rs"
    and "\<forall>r \<in> set resultados. map fst r =
           [''bbox'', ''edad'', ''genero'', ''confianza'', ''embedding'', ''nombre'', ''similitud'']"
  shows "\<forall>r \<in> set rs. map fst r =
           [''bbox'', ''edad'', ''genero'', ''confianza'', ''embedding'', ''nombre'', ''similitud'']"
  using assms
proof (induction faces arbitrary: resultados)
  case Nil
  then show ?case by simp
next
  case (Cons c faces)
  from Cons.prems(1) obtain nombre similitud where
    r: "reconocer_persona (personas_registradas w) (f_normed_embedding c) umbral_defecto
          = Inr (nombre, similitud)"
    by (auto simp: Let_def split: sum.splits)
  show ?case
  proof (rule Cons.IH)
    show "detectar_bucle w faces
            (resultados @
             [AList.update ''similitud'' (VReal similitud)
                (AList.update ''nombre''
                   (VStr (case nombre of None \<Rightarrow> ''Desconocido''
                          | Some n \<Rightarrow> if n = [] then ''Desconocido'' else n))
                   [(''bbox'', VLista (f_bbox c)),
                    (''edad'', opcional VInt (f_age c)),
                    (''genero'', opcional (\<lambda>s. VStr (if s = ''M'' then ''Masculino'' else ''Femenino''))
                                   (f_sex c)),
                    (''confianza'', opcional VReal (f_det_score c)),
                    (''embedding'', VVector (f_normed_embedding c))])]) = Inr rs"
      using Cons.prems(1) r by (simp add: Let_def)
  next
    show "\<forall>r \<in> set (resultados @
             [AList.update ''similitud'' (VReal similitud)
                (AList.update ''nombre''
                   (VStr (case nombre of None \<Rightarrow> ''Desconocido''
                          | Some n \<Rightarrow> if n = [] then ''Desconocido'' else n))
                   [(''bbox'', VLista (f_bbox c)),
                    (''edad'', opcional VInt (f_age c)),
                    (''genero'', opcional (\<lambda>s. VStr (if s = ''M'' then ''Masculino'' else ''Femenino''))
                                   (f_sex c)),
                    (''confianza'', opcional VReal (f_det_score c)),
                    (''embedding'', VVector (f_normed_embedding c))])]).
            map fst r =
              [''bbox'', ''edad'', ''genero'', ''confianza'', ''embedding'', ''nombre'', ''similitud'']"
      using Cons.prems(2) by simp
  qed
qed

text \<open>
  On the hosted store the listing has a fifth key, \<open>foto_url\<close>.
\<close>

theorem listar_personas_con_foto_url:
  "listar_personas mundo_remoto_personas =
     [[(''nombre'', VStr ''Ana''), (''fecha_registro'', VStr ''2024-03-01 08:00:00''),
       (''edad'', VInt 31), (''genero'', VStr ''Femenino''), (''foto_url'', VNone)]]"
  by (simp add: listar_personas_def supabase_listar_personas_def mundo_remoto_personas_def
      mundo_local_def fila_a_dict_def opcional_def)

text \<open>
  C9, as amended. For every state, each record of the person listing has exactly the
  keys name, registration date, age and gender, and on the hosted store also the photo
  URL; it has no key \<open>embedding\<close> and no vector among its values. Every face the detect
  endpoint returns has the keys box, age, gender, confidence, name and similarity: the
  key \<open>embedding\<close> has been removed.
\<close>

theorem listados_sin_embedding:
  "(\<forall>d \<in> set (listar_personas w).
      map fst d = (if enabled w
                   then [''nombre'', ''fecha_registro'', ''edad'', ''genero'', ''foto_url'']
                   else [''nombre'', ''fecha_registro'', ''edad'', ''genero'']) \<and>
      ''embedding'' \<notin> fst ` set d \<and> (\<forall>e. VVector e \<notin> snd ` set d)) \<and>
   (\<forall>resp. api_detectar_rostros w faces = Inr resp \<longrightarrow>
      rd_total_rostros resp = length faces \<and>
      (\<forall>rostro \<in> set (rd_rostros resp).
         map fst rostro = [''bbox'', ''edad'', ''genero'', ''confianza'', ''nombre'', ''similitud''] \<and>
         ''embedding'' \<notin> fst ` set rostro))"
proof -
  have l: "map fst d = (if enabled w
                   then [''nombre'', ''fecha_registro'', ''edad'', ''genero'', ''foto_url'']
                   else [''nombre'', ''fecha_registro'', ''edad'', ''genero'']) \<and>
      ''embedding'' \<notin> fst ` set d \<and> (\<forall>e. VVector e \<notin> snd ` set d)"
    if "d \<in> set (listar_personas w)" for d
    using that
    by (auto simp: listar_personas_def supabase_listar_personas_def fila_a_dict_def Let_def
        opcional_def split: if_splits option.splits)
  have a: "map fst rostro = [''bbox'', ''edad'', ''genero'', ''confianza'', ''nombre'', ''similitud''] \<and>
         ''embedding'' \<notin> fst ` set rostro"
    if "api_detectar_rostros w faces = Inr resp" "rostro \<in> set (rd_rostros resp)" for resp rostro
  proof -
    from that(1) obtain rs where rs: "detectar_rostros w faces = Inr rs"
      and resp: "rd_rostros resp = map (\<lambda>rostro. if ''embedding'' \<in> fst ` set rostro
                               then AList.delete ''embedding'' rostro else rostro) rs"
      by (auto simp: api_detectar_rostros_def Let_def split: sum.splits)
    from rs have k: "\<forall>r \<in> set rs. map fst r =
           [''bbox'', ''edad'', ''genero'', ''confianza'', ''embedding'', ''nombre'', ''similitud'']"
      unfolding detectar_rostros_def by (rule claves_detectar_bucle) simp
    from that(2) resp obtain r where r: "r \<in> set rs"
      "rostro = (if ''embedding'' \<in> fst ` set r then AList.delete ''embedding'' r else r)"
      by auto
    from k r(1) have m: "map fst r =
           [''bbox'', ''edad'', ''genero'', ''confianza'', ''embedding'', ''nombre'', ''similitud'']"
      by blast
    then have i: "''embedding'' \<in> fst ` set r"
      by (simp flip: set_map)
    have "map fst (AList.delete ''embedding'' r) = filter (\<lambda>k. k \<noteq> ''embedding'') (map fst r)"
      by (induction r) auto
    then have "map fst (AList.delete ''embedding'' r) =
        [''bbox'', ''edad'', ''genero'', ''confianza'', ''nombre'', ''similitud'']"
      by (simp add: m)
    then show ?thesis
      using r(2) i by (simp flip: set_map)
  qed
  have n: "rd_total_rostros resp = length faces" if "api_detectar_rostros w faces = Inr resp" for resp
  proof -
    have len: "detectar_bucle w fs acc = Inr rs \<Longrightarrow> length rs = length acc + length fs" for fs acc rs
      by (induction fs arbitrary: acc) (auto simp: Let_def split: sum.splits)
    from that show ?thesis
      by (auto simp: api_detectar_rostros_def detectar_rostros_def Let_def dest: len split: sum.splits)
  qed
  from l a n show ?thesis
    by blast
qed

theorem listados_sin_embedding_witness:
  "listar_personas mundo_personas =
     [[(''nombre'', VStr ''Ana''), (''fecha_registro'', VStr ''2024-03-01 08:00:00''),
       (''edad'', VInt 30), (''genero'', VStr ''Femenino'')],
      [(''nombre'', VStr ''Bob''), (''fecha_registro'', VStr ''2024-03-01 08:00:00''),
       (''edad'', VInt 30), (''genero'', VStr ''Femenino'')],
      [(''nombre'', VStr ''Eva''), (''fecha_registro'', VStr ''2024-03-01 08:00:00''),
       (''edad'', VInt 30), (''genero'', VStr ''Femenino'')]] \<and>
   api_detectar_rostros mundo_personas [cara [6/10, 8/10]] =
     Inr \<lparr>rd_rostros = [[(''bbox'', VLista [10, 20, 110, 140]), (''edad'', VInt 31),
                          (''genero'', VStr ''Femenino''), (''confianza'', VReal (9/10)),
                          (''nombre'', VStr ''Bob''), (''similitud'', VReal (8/10))]],
           rd_total_rostros = 1\<rparr>"
proof -
  have a: "listar_personas mundo_personas =
     [[(''nombre'', VStr ''Ana''), (''fecha_registro'', VStr ''2024-03-01 08:00:00''),
       (''edad'', VInt 30), (''genero'', VStr ''Femenino'')],
      [(''nombre'', VStr ''Bob''), (''fecha_registro'', VStr ''2024-03-01 08:00:00''),
       (''edad'', VInt 30), (''genero'', VStr ''Femenino'')],
      [(''nombre'', VStr ''Eva''), (''fecha_registro'', VStr ''2024-03-01 08:00:00''),
       (''edad'', VInt 30), (''genero'', VStr ''Femenino'')]]"
    by (simp add: listar_personas_def mundo_personas_def personas_ejemplo_def persona_con_def
        mundo_local_def opcional_def)
  have b: "api_detectar_rostros mundo_personas [cara [6/10, 8/10]] =
     Inr \<lparr>rd_rostros = [[(''bbox'', VLista [10, 20, 110, 140]), (''edad'', VInt 31),
                          (''genero'', VStr ''Femenino''), (''confianza'', VReal (9/10)),
                          (''nombre'', VStr ''Bob''), (''similitud'', VReal (8/10))]],
           rd_total_rostros = 1\<rparr>"
    by (simp add: api_detectar_rostros_def detectar_rostros_def mundo_personas_def
        mundo_local_def cara_def opcional_def reconocer_persona_def personas_ejemplo_def
        persona_con_def np_dot_def umbral_defecto_def AList.delete_eq Let_def)
  from listados_sin_embedding[of mundo_personas "[cara [6/10, 8/10]]"] a b show ?thesis
    by simp
qed

end
